theory Spec2Isabelle
  imports Complex_Main "HOL-Library.Log_Nat"
begin

chapter \<open>The space-travel agency: a shallow embedding of its tool functions\<close>

text \<open>
  The Python functions of the repository are translated one by one. A Python \<open>str\<close> is a
  \<open>string\<close> holding its UTF-8 bytes, an unbounded \<open>int\<close> is an \<open>int\<close>, a dictionary is a
  map or, where \<open>items()\<close> is iterated, an association list in insertion order. The
  \<open>float\<close> arithmetic of the price calculator is IEEE double arithmetic: every product is
  rounded to 53 significant bits, overflows to infinity, and the conversion of an \<open>int\<close>
  beyond the range raises OverflowError. Where a float is only compared with a constant
  (blood pressure, resource percentages), it is the rational number it denotes.
\<close>

section \<open>Definitions\<close>

subsection \<open>Python strings: \<open>str.lower\<close>\<close>

definition ascii_uppercase :: string where
  "ascii_uppercase = ''ABCDEFGHIJKLMNOPQRSTUVWXYZ''"

definition ascii_lowercase :: string where
  "ascii_lowercase = ''abcdefghijklmnopqrstuvwxyz''"

text \<open>
  \<open>str.lower\<close> on the ASCII letters; every other byte is kept. Python also lowers
  letters outside ASCII, but the only code point that it lowers to an ASCII letter is the
  Kelvin sign (to \<open>k\<close>), and no key of the tables below contains a \<open>k\<close>.
\<close>

definition lower_char :: "char \<Rightarrow> char" where
  "lower_char c =
     (case map_of (zip ascii_uppercase ascii_lowercase) c of None \<Rightarrow> c | Some d \<Rightarrow> d)"

definition lower :: "string \<Rightarrow> string" where
  "lower s = map lower_char s"

text \<open>\<open>d.get(key, default)\<close> on a dictionary literal.\<close>

definition dict_get :: "('k \<times> 'v) list \<Rightarrow> 'k \<Rightarrow> 'v \<Rightarrow> 'v" where
  "dict_get d key dflt = (case map_of d key of None \<Rightarrow> dflt | Some v \<Rightarrow> v)"

subsection \<open>Python values and exceptions\<close>

text \<open>
  An exception is a value. \<open>exn\<close> holds the instances of Python's \<open>Exception\<close> class:
  \<open>StripeError\<close> (the payment SDK's base class, with its message and its \<open>code\<close>
  attribute) and every other exception, by class name and message. \<open>KeyboardInterrupt\<close>
  and \<open>SystemExit\<close>, which are not instances of \<open>Exception\<close>, are outside the model.
  A computation that may raise returns \<open>exn + 'a\<close>, \<open>Inl\<close> the exception raised.
\<close>

datatype exn = StripeError string "string option" | PyError string string

fun str_exn :: "exn \<Rightarrow> string" where
  "str_exn (StripeError msg code) = msg"
| "str_exn (PyError cls msg) = msg"

definition bind_exn :: "exn + 'a \<Rightarrow> ('a \<Rightarrow> exn + 'b) \<Rightarrow> exn + 'b" where
  "bind_exn m f = (case m of Inl e \<Rightarrow> Inl e | Inr x \<Rightarrow> f x)"

datatype pyval =
    PNone
  | PBool bool
  | PInt int
  | PFloat rat
  | PStr string
  | PDatetime int
  | PDict "string \<Rightarrow> pyval option"

text \<open>
  In a value, a \<open>float\<close> is the rational it denotes (values are only compared), a
  \<open>datetime\<close> its POSIX timestamp, a dictionary with string keys a map.
\<close>

text \<open>\<open>v[key]\<close> for a string key: only a dictionary holding the key answers.\<close>

fun subscript :: "pyval \<Rightarrow> string \<Rightarrow> exn + pyval" where
  "subscript (PDict d) key =
     (case d key of None \<Rightarrow> Inl (PyError ''KeyError'' key) | Some v \<Rightarrow> Inr v)"
| "subscript (PStr s) key = Inl (PyError ''TypeError'' ''string indices must be integers'')"
| "subscript v key = Inl (PyError ''TypeError'' ''object is not subscriptable'')"

text \<open>\<open>v > n\<close> for a number \<open>n\<close>: numbers compare, anything else raises.\<close>

fun greater_than :: "pyval \<Rightarrow> rat \<Rightarrow> exn + bool" where
  "greater_than (PInt i) n = Inr (n < of_int i)"
| "greater_than (PBool b) n = Inr (n < (if b then 1 else 0))"
| "greater_than (PFloat x) n = Inr (n < x)"
| "greater_than v n = Inl (PyError ''TypeError'' ''> not supported between these types'')"

text \<open>The number a value denotes, if it is one.\<close>

fun numeric :: "pyval \<Rightarrow> rat option" where
  "numeric (PInt i) = Some (of_int i)"
| "numeric (PBool b) = Some (if b then 1 else 0)"
| "numeric (PFloat x) = Some x"
| "numeric v = None"

subsection \<open>Python floats: IEEE double arithmetic\<close>

text \<open>
  Rounding to the nearest integer, ties to the even one: the rounding of the last bit in
  the default IEEE mode.
\<close>

definition round_half_even :: "rat \<Rightarrow> int" where
  "round_half_even r =
     (let f = \<lfloor>r\<rfloor>; d = r - of_int f
      in if d < 1 / 2 then f else if 1 / 2 < d then f + 1 else if even f then f else f + 1)"

text \<open>Powers of two with an integer exponent.\<close>

definition pow2 :: "int \<Rightarrow> rat" where
  "pow2 k = (if 0 \<le> k then 2 ^ nat k else 1 / 2 ^ nat (- k))"

text \<open>
  The binary exponent of a positive rational \<open>x\<close>, the \<open>e\<close> with \<open>2 ^ e \<le> x < 2 ^ (e + 1)\<close>.
  (\<open>bitlen n\<close> is the number of binary digits of \<open>n\<close>.)
\<close>

definition exponent :: "rat \<Rightarrow> int" where
  "exponent x = (if 1 \<le> x then bitlen \<lfloor>x\<rfloor> - 1 else - bitlen (\<lceil>1 / x\<rceil> - 1))"

text \<open>
  The double nearest to a rational, before the range is checked: 53 significant bits
  at the exponent of the value, and never an exponent below \<open>- 1022\<close> (subnormal numbers).
  Rounding is symmetric in the sign. The two zeros of IEEE arithmetic are one value
  here: they are equal under \<open>==\<close>, and a product differs between them at most in the
  sign of a zero.
\<close>

definition round_double :: "rat \<Rightarrow> rat" where
  "round_double x =
     (if x = 0 then 0
      else let e = max (exponent \<bar>x\<bar>) (- 1022); q = pow2 (e - 52)
           in sgn x * of_int (round_half_even (\<bar>x\<bar> / q)) * q)"

text \<open>A float: a finite double, by the rational it is, an infinity, or not a number.\<close>

datatype pyfloat = Finite rat | PosInf | NegInf | NaN

text \<open>
  \<open>float(n)\<close>, as \<open>int * float\<close> and \<open>float * int\<close> convert their integer operand: the
  nearest double, and OverflowError when that is beyond the largest double.
\<close>

definition float_of_int :: "int \<Rightarrow> exn + pyfloat" where
  "float_of_int n =
     (let r = round_double (of_int n)
      in if 2 ^ 1024 \<le> \<bar>r\<bar>
         then Inl (PyError ''OverflowError'' ''int too large to convert to float'')
         else Inr (Finite r))"

text \<open>
  \<open>x * y\<close> on floats: the rounded product, an infinity when the rounded product is
  beyond the largest double, NaN for infinity times zero. It never raises.
\<close>

fun float_mul :: "pyfloat \<Rightarrow> pyfloat \<Rightarrow> pyfloat" where
  "float_mul (Finite a) (Finite b) =
     (let r = round_double (a * b)
      in if 2 ^ 1024 \<le> r then PosInf else if r \<le> - (2 ^ 1024) then NegInf else Finite r)"
| "float_mul (Finite a) PosInf = (if a = 0 then NaN else if 0 < a then PosInf else NegInf)"
| "float_mul (Finite a) NegInf = (if a = 0 then NaN else if 0 < a then NegInf else PosInf)"
| "float_mul PosInf (Finite b) = (if b = 0 then NaN else if 0 < b then PosInf else NegInf)"
| "float_mul NegInf (Finite b) = (if b = 0 then NaN else if 0 < b then NegInf else PosInf)"
| "float_mul PosInf PosInf = PosInf"
| "float_mul PosInf NegInf = NegInf"
| "float_mul NegInf PosInf = NegInf"
| "float_mul NegInf NegInf = PosInf"
| "float_mul NaN y = NaN"
| "float_mul x NaN = NaN"

text \<open>\<open>x <= y\<close> on floats: false whenever an operand is NaN.\<close>

fun float_le :: "pyfloat \<Rightarrow> pyfloat \<Rightarrow> bool" where
  "float_le (Finite a) (Finite b) = (a \<le> b)"
| "float_le (Finite a) PosInf = True"
| "float_le (Finite a) NegInf = False"
| "float_le PosInf (Finite b) = False"
| "float_le NegInf (Finite b) = True"
| "float_le PosInf PosInf = True"
| "float_le PosInf NegInf = False"
| "float_le NegInf PosInf = True"
| "float_le NegInf NegInf = True"
| "float_le NaN y = False"
| "float_le x NaN = False"

text \<open>\<open>n * x\<close> and \<open>x * n\<close> for an \<open>int\<close> \<open>n\<close> and a \<open>float\<close> \<open>x\<close>.\<close>

definition int_times_float :: "int \<Rightarrow> pyfloat \<Rightarrow> exn + pyfloat" where
  "int_times_float n x = bind_exn (float_of_int n) (\<lambda>y. Inr (float_mul y x))"

definition float_times_int :: "pyfloat \<Rightarrow> int \<Rightarrow> exn + pyfloat" where
  "float_times_int x n = bind_exn (float_of_int n) (\<lambda>y. Inr (float_mul x y))"

subsection \<open>\<open>agents/booking_agent.py\<close>: the price calculator\<close>

definition base_prices :: "(string \<times> int) list" where
  "base_prices = [(''moon'', 1000000), (''mars'', 5000000), (''space_station'', 800000)]"

text \<open>The multipliers are the floats \<open>1.0\<close>, \<open>1.5\<close> and \<open>2.0\<close>.\<close>

definition package_multipliers :: "(string \<times> pyfloat) list" where
  "package_multipliers =
     [(''economy'', Finite 1), (''business'', Finite (3 / 2)), (''first'', Finite 2)]"

text \<open>
  \<open>total = base_price * package_multiplier * days * passengers\<close>, from left to right:
  an \<open>int\<close> times a \<open>float\<close>, then twice a \<open>float\<close> times an \<open>int\<close>.
\<close>

definition calculate_price :: "string \<Rightarrow> int \<Rightarrow> string \<Rightarrow> int \<Rightarrow> exn + pyfloat" where
  "calculate_price destination days package_type passengers =
     (let base_price = dict_get base_prices (lower destination) 1000000;
          package_multiplier = dict_get package_multipliers (lower package_type) (Finite 1)
      in bind_exn (int_times_float base_price package_multiplier) (\<lambda>total.
         bind_exn (float_times_int total days) (\<lambda>total.
         float_times_int total passengers)))"

text \<open>
  The price as the specification words it: a base price and a multiplier, each read from
  its table on the lowered key with a fallback, multiplied by days and passengers, as
  numbers.
\<close>

definition spec_base_price :: "string \<Rightarrow> int" where
  "spec_base_price destination =
     (if lower destination = ''moon'' then 1000000
      else if lower destination = ''mars'' then 5000000
      else if lower destination = ''space_station'' then 800000
      else 1000000)"

definition spec_package_multiplier :: "string \<Rightarrow> rat" where
  "spec_package_multiplier package_type =
     (if lower package_type = ''economy'' then 1
      else if lower package_type = ''business'' then 3 / 2
      else if lower package_type = ''first'' then 2
      else 1)"

text \<open>The package tiers in their order: economy, business, first.\<close>

definition tier_rank :: "string \<Rightarrow> nat option" where
  "tier_rank package_type =
     (if lower package_type = ''economy'' then Some 0
      else if lower package_type = ''business'' then Some 1
      else if lower package_type = ''first'' then Some 2
      else None)"

subsection \<open>\<open>agents/safety_agent.py\<close>: the health check\<close>

definition required_checks :: "string list" where
  "required_checks =
     [''blood_pressure'', ''heart_condition'', ''bone_density'', ''inner_ear'', ''vision'']"

text \<open>
  The loop \<open>for check in required_checks: if check not in medical_history: return False\<close>;
  the result says whether the loop returned.
\<close>

fun check_missing :: "(string \<Rightarrow> pyval option) \<Rightarrow> string list \<Rightarrow> bool" where
  "check_missing medical_history [] = False"
| "check_missing medical_history (c # cs) =
     (if medical_history c = None then True else check_missing medical_history cs)"

definition check_health_requirements :: "(string \<Rightarrow> pyval option) \<Rightarrow> exn + bool" where
  "check_health_requirements medical_history =
     (if check_missing medical_history required_checks then Inr False
      else
        bind_exn (subscript (PDict medical_history) ''blood_pressure'') (\<lambda>bp.
        bind_exn (subscript bp ''systolic'') (\<lambda>systolic.
        bind_exn (greater_than systolic 140) (\<lambda>too_high.
        if too_high then Inr False
        else
          bind_exn (subscript (PDict medical_history) ''blood_pressure'') (\<lambda>bp.
          bind_exn (subscript bp ''diastolic'') (\<lambda>diastolic.
          bind_exn (greater_than diastolic 90) (\<lambda>too_high.
          if too_high then Inr False else Inr True)))))))"

text \<open>
  A medical history with all five required fields whose blood-pressure entry holds a
  diastolic reading of 95 and no systolic reading.
\<close>

definition pressure_without_systolic :: "string \<Rightarrow> pyval option" where
  "pressure_without_systolic = map_of [(''diastolic'', PInt 95)]"

definition history_without_systolic :: "string \<Rightarrow> pyval option" where
  "history_without_systolic =
     map_of [(''blood_pressure'', PDict pressure_without_systolic),
             (''heart_condition'', PStr ''normal''),
             (''bone_density'', PFloat (6 / 5)),
             (''inner_ear'', PStr ''normal''),
             (''vision'', PStr ''20/20'')]"

text \<open>A complete medical history with readings 120 over 80.\<close>

definition healthy_pressure :: "string \<Rightarrow> pyval option" where
  "healthy_pressure = map_of [(''systolic'', PInt 120), (''diastolic'', PInt 80)]"

definition healthy_history :: "string \<Rightarrow> pyval option" where
  "healthy_history =
     map_of [(''blood_pressure'', PDict healthy_pressure),
             (''heart_condition'', PStr ''normal''),
             (''bone_density'', PFloat (6 / 5)),
             (''inner_ear'', PStr ''normal''),
             (''vision'', PStr ''20/20'')]"

subsection \<open>\<open>agents/safety_agent.py\<close>: the space-weather record\<close>

record space_weather =
  solar_activity :: string
  radiation_level :: string
  meteoroid_risk :: string
  recommendation :: string

text \<open>
  The recommendation of \<open>monitor_space_weather\<close>, a Japanese sentence (the present space
  weather is stable and suits space travel), as its UTF-8 bytes.
\<close>

definition stable_weather_text :: string where
  "stable_weather_text =
     [CHR 0xE7, CHR 0x8F, CHR 0xBE, CHR 0xE5, CHR 0x9C, CHR 0xA8, CHR 0xE3,
      CHR 0x81, CHR 0xAE, CHR 0xE5, CHR 0xAE, CHR 0x87, CHR 0xE5, CHR 0xAE,
      CHR 0x99, CHR 0xE5, CHR 0xA4, CHR 0xA9, CHR 0xE6, CHR 0xB0, CHR 0x97,
      CHR 0xE3, CHR 0x81, CHR 0xAF, CHR 0xE5, CHR 0xAE, CHR 0x89, CHR 0xE5,
      CHR 0xAE, CHR 0x9A, CHR 0xE3, CHR 0x81, CHR 0x97, CHR 0xE3, CHR 0x81,
      CHR 0xA6, CHR 0xE3, CHR 0x81, CHR 0x8A, CHR 0xE3, CHR 0x82, CHR 0x8A,
      CHR 0xE3, CHR 0x80, CHR 0x81, CHR 0xE5, CHR 0xAE, CHR 0x87, CHR 0xE5,
      CHR 0xAE, CHR 0x99, CHR 0xE6, CHR 0x97, CHR 0x85, CHR 0xE8, CHR 0xA1,
      CHR 0x8C, CHR 0xE3, CHR 0x81, CHR 0xAB, CHR 0xE9, CHR 0x81, CHR 0xA9,
      CHR 0xE3, CHR 0x81, CHR 0x97, CHR 0xE3, CHR 0x81, CHR 0xA6, CHR 0xE3,
      CHR 0x81, CHR 0x84, CHR 0xE3, CHR 0x81, CHR 0xBE, CHR 0xE3, CHR 0x81,
      CHR 0x99, CHR 0xE3, CHR 0x80, CHR 0x82]"

definition monitor_space_weather :: space_weather where
  "monitor_space_weather =
     \<lparr>solar_activity = ''moderate'',
      radiation_level = ''normal'',
      meteoroid_risk = ''low'',
      recommendation = stable_weather_text\<rparr>"

subsection \<open>\<open>tools/space_weather.py\<close>: the sensors and the recommendation\<close>

definition activity_levels :: "string list" where
  "activity_levels = [''low'', ''moderate'', ''high'', ''extreme'']"

definition risk_levels :: "string list" where
  "risk_levels = [''minimal'', ''low'', ''moderate'', ''high'', ''severe'']"

text \<open>
  \<open>random.choice(seq)\<close> raises IndexError on an empty sequence and returns
  \<open>seq[randbelow(len(seq))]\<close> otherwise. The draw \<open>r\<close> is the generator's output, reduced
  below the length: every index below \<open>len(seq)\<close> is the result of some draw.
\<close>

definition random_choice :: "nat \<Rightarrow> 'a list \<Rightarrow> exn + 'a" where
  "random_choice r seq =
     (if seq = [] then Inl (PyError ''IndexError'' ''Cannot choose from an empty sequence'')
      else Inr (seq ! (r mod length seq)))"

definition get_solar_activity :: "nat \<Rightarrow> exn + string" where
  "get_solar_activity r = random_choice r activity_levels"

definition get_radiation_level :: "nat \<Rightarrow> exn + string" where
  "get_radiation_level r = random_choice r activity_levels"

definition get_meteoroid_risk :: "nat \<Rightarrow> exn + string" where
  "get_meteoroid_risk r = random_choice r risk_levels"

text \<open>
  The three recommendations, Japanese sentences as their UTF-8 bytes: the space weather
  is unstable and postponing the journey is advised; the space weather needs care but
  travel is possible with suitable measures; the space weather is stable and suits space
  travel.
\<close>

definition postpone_text :: string where
  "postpone_text =
     [CHR 0xE7, CHR 0x8F, CHR 0xBE, CHR 0xE5, CHR 0x9C, CHR 0xA8, CHR 0xE3,
      CHR 0x80, CHR 0x81, CHR 0xE5, CHR 0xAE, CHR 0x87, CHR 0xE5, CHR 0xAE,
      CHR 0x99, CHR 0xE5, CHR 0xA4, CHR 0xA9, CHR 0xE5, CHR 0x80, CHR 0x99,
      CHR 0xE3, CHR 0x81, CHR 0x8C, CHR 0xE4, CHR 0xB8, CHR 0x8D, CHR 0xE5,
      CHR 0xAE, CHR 0x89, CHR 0xE5, CHR 0xAE, CHR 0x9A, CHR 0xE3, CHR 0x81,
      CHR 0xA7, CHR 0xE3, CHR 0x81, CHR 0x99, CHR 0xE3, CHR 0x80, CHR 0x82,
      CHR 0xE5, CHR 0xAE, CHR 0x87, CHR 0xE5, CHR 0xAE, CHR 0x99, CHR 0xE6,
      CHR 0x97, CHR 0x85, CHR 0xE8, CHR 0xA1, CHR 0x8C, CHR 0xE3, CHR 0x81,
      CHR 0xAE, CHR 0xE5, CHR 0xBB, CHR 0xB6, CHR 0xE6, CHR 0x9C, CHR 0x9F,
      CHR 0xE3, CHR 0x82, CHR 0x92, CHR 0xE3, CHR 0x81, CHR 0x8A, CHR 0xE5,
      CHR 0x8B, CHR 0xA7, CHR 0xE3, CHR 0x82, CHR 0x81, CHR 0xE3, CHR 0x81,
      CHR 0x97, CHR 0xE3, CHR 0x81, CHR 0xBE, CHR 0xE3, CHR 0x81, CHR 0x99,
      CHR 0xE3, CHR 0x80, CHR 0x82]"

definition caution_text :: string where
  "caution_text =
     [CHR 0xE5, CHR 0xAE, CHR 0x87, CHR 0xE5, CHR 0xAE, CHR 0x99, CHR 0xE5,
      CHR 0xA4, CHR 0xA9, CHR 0xE5, CHR 0x80, CHR 0x99, CHR 0xE3, CHR 0x81,
      CHR 0xAF, CHR 0xE6, CHR 0xB3, CHR 0xA8, CHR 0xE6, CHR 0x84, CHR 0x8F,
      CHR 0xE3, CHR 0x81, CHR 0x8C, CHR 0xE5, CHR 0xBF, CHR 0x85, CHR 0xE8,
      CHR 0xA6, CHR 0x81, CHR 0xE3, CHR 0x81, CHR 0xA7, CHR 0xE3, CHR 0x81,
      CHR 0x99, CHR 0xE3, CHR 0x81, CHR 0x8C, CHR 0xE3, CHR 0x80, CHR 0x81,
      CHR 0xE9, CHR 0x81, CHR 0xA9, CHR 0xE5, CHR 0x88, CHR 0x87, CHR 0xE3,
      CHR 0x81, CHR 0xAA, CHR 0xE5, CHR 0xAF, CHR 0xBE, CHR 0xE7, CHR 0xAD,
      CHR 0x96, CHR 0xE3, CHR 0x82, CHR 0x92, CHR 0xE8, CHR 0xAC, CHR 0x9B,
      CHR 0xE3, CHR 0x81, CHR 0x98, CHR 0xE3, CHR 0x82, CHR 0x8C, CHR 0xE3,
      CHR 0x81, CHR 0xB0, CHR 0xE5, CHR 0xAE, CHR 0x87, CHR 0xE5, CHR 0xAE,
      CHR 0x99, CHR 0xE6, CHR 0x97, CHR 0x85, CHR 0xE8, CHR 0xA1, CHR 0x8C,
      CHR 0xE3, CHR 0x81, CHR 0xAF, CHR 0xE5, CHR 0x8F, CHR 0xAF, CHR 0xE8,
      CHR 0x83, CHR 0xBD, CHR 0xE3, CHR 0x81, CHR 0xA7, CHR 0xE3, CHR 0x81,
      CHR 0x99, CHR 0xE3, CHR 0x80, CHR 0x82]"

definition stable_text :: string where
  "stable_text =
     [CHR 0xE7, CHR 0x8F, CHR 0xBE, CHR 0xE5, CHR 0x9C, CHR 0xA8, CHR 0xE3,
      CHR 0x81, CHR 0xAE, CHR 0xE5, CHR 0xAE, CHR 0x87, CHR 0xE5, CHR 0xAE,
      CHR 0x99, CHR 0xE5, CHR 0xA4, CHR 0xA9, CHR 0xE5, CHR 0x80, CHR 0x99,
      CHR 0xE3, CHR 0x81, CHR 0xAF, CHR 0xE5, CHR 0xAE, CHR 0x89, CHR 0xE5,
      CHR 0xAE, CHR 0x9A, CHR 0xE3, CHR 0x81, CHR 0x97, CHR 0xE3, CHR 0x81,
      CHR 0xA6, CHR 0xE3, CHR 0x81, CHR 0x8A, CHR 0xE3, CHR 0x82, CHR 0x8A,
      CHR 0xE3, CHR 0x80, CHR 0x81, CHR 0xE5, CHR 0xAE, CHR 0x87, CHR 0xE5,
      CHR 0xAE, CHR 0x99, CHR 0xE6, CHR 0x97, CHR 0x85, CHR 0xE8, CHR 0xA1,
      CHR 0x8C, CHR 0xE3, CHR 0x81, CHR 0xAB, CHR 0xE9, CHR 0x81, CHR 0xA9,
      CHR 0xE3, CHR 0x81, CHR 0x97, CHR 0xE3, CHR 0x81, CHR 0xA6, CHR 0xE3,
      CHR 0x81, CHR 0x84, CHR 0xE3, CHR 0x81, CHR 0xBE, CHR 0xE3, CHR 0x81,
      CHR 0x99, CHR 0xE3, CHR 0x80, CHR 0x82]"

definition get_weather_recommendation :: "string \<Rightarrow> string \<Rightarrow> string \<Rightarrow> string" where
  "get_weather_recommendation solar radiation meteoroid =
     (if ''high'' \<in> set [solar, radiation] \<or> meteoroid \<in> set [''high'', ''severe'']
      then postpone_text
      else if ''moderate'' \<in> set [solar, radiation, meteoroid]
      then caution_text
      else stable_text)"

text \<open>
  \<open>get_full_weather_report\<close>: three draws, one per sensor, and the clock's ISO timestamp.
  The dictionary is returned as its items in insertion order.
\<close>

definition get_full_weather_report ::
    "string \<Rightarrow> nat \<Rightarrow> nat \<Rightarrow> nat \<Rightarrow> exn + (string \<times> pyval) list" where
  "get_full_weather_report now r1 r2 r3 =
     bind_exn (get_solar_activity r1) (\<lambda>solar.
     bind_exn (get_radiation_level r2) (\<lambda>radiation.
     bind_exn (get_meteoroid_risk r3) (\<lambda>meteoroid.
     Inr [(''timestamp'', PStr now),
          (''solar_activity'', PStr solar),
          (''radiation_level'', PStr radiation),
          (''meteoroid_risk'', PStr meteoroid),
          (''recommendation'', PStr (get_weather_recommendation solar radiation meteoroid)),
          (''valid_hours'', PInt 24)])))"

subsection \<open>\<open>tools/training_simulator.py\<close>: the training schedule\<close>

datatype TrainingType = ZERO_GRAVITY | EMERGENCY | SPACECRAFT | HEALTH | COMMUNICATION

fun type_value :: "TrainingType \<Rightarrow> string" where
  "type_value ZERO_GRAVITY = ''zero_gravity''"
| "type_value EMERGENCY = ''emergency''"
| "type_value SPACECRAFT = ''spacecraft''"
| "type_value HEALTH = ''health''"
| "type_value COMMUNICATION = ''communication''"

text \<open>
  \<open>training_programs[t]["duration_days"]\<close>. The other entries of a program
  (requirements, equipment, description) are texts copied into the module unchanged;
  they are left out.
\<close>

fun duration_days :: "TrainingType \<Rightarrow> int" where
  "duration_days ZERO_GRAVITY = 5"
| "duration_days EMERGENCY = 3"
| "duration_days SPACECRAFT = 7"
| "duration_days HEALTH = 2"
| "duration_days COMMUNICATION = 1"

text \<open>
  A \<open>datetime\<close> is counted in days, and \<open>timedelta(days=n)\<close> is \<open>n\<close>: the schedule only
  adds and subtracts whole days, which leaves the time of day as it is.
\<close>

record training_module =
  module_type :: string
  module_start_date :: int
  module_end_date :: int
  module_duration_days :: int

record training_schedule =
  trainee_name :: string
  start_date :: int
  end_date :: int
  departure_date :: int
  training_modules :: "training_module list"

text \<open>
  The loop over \<open>training_types\<close>: each module starts at \<open>current_date\<close>, which then
  moves on by the module's duration and one day.
\<close>

fun append_modules :: "int \<Rightarrow> TrainingType list \<Rightarrow> training_module list" where
  "append_modules current_date [] = []"
| "append_modules current_date (training_type # training_types) =
     \<lparr>module_type = type_value training_type,
      module_start_date = current_date,
      module_end_date = current_date + duration_days training_type,
      module_duration_days = duration_days training_type\<rparr>
     # append_modules (current_date + (duration_days training_type + 1)) training_types"

definition create_training_schedule ::
    "string \<Rightarrow> int \<Rightarrow> TrainingType list \<Rightarrow> training_schedule" where
  "create_training_schedule name departure training_types =
     (let total_days = sum_list (map duration_days training_types);
          start = departure - (total_days + 14)
      in \<lparr>trainee_name = name,
          start_date = start,
          end_date = departure - 7,
          departure_date = departure,
          training_modules = append_modules start training_types\<rparr>)"

subsection \<open>\<open>monitoring/alert_notifier.py\<close>: the alert channels\<close>

text \<open>
  The notifier's settings, read from the environment by \<open>__init__\<close>: \<open>os.getenv\<close> gives
  \<open>None\<close> for a variable that is not set.
\<close>

record AlertNotifier =
  smtp_server :: "string option"
  smtp_port :: int
  smtp_username :: "string option"
  smtp_password :: "string option"
  from_address :: "string option"
  slack_webhook :: "string option"
  line_token :: "string option"
  discord_webhook :: "string option"

text \<open>
  What leaves the process. A request is recorded by the parameters the code fills in;
  their rendering into MIME, JSON and form text (HTML template, emoji, timestamp) is left
  out.
\<close>

datatype smtp_request =
  SmtpMail "string option" int "string option" "string option" "string option"
    "string list" string string

datatype http_body =
    SlackPayload string string string
  | LinePayload "string option" string
  | DiscordPayload string string int

text \<open>
  The outside world answers each request. \<open>smtp_dialogue\<close> is the whole \<open>with smtplib.SMTP\<close>
  block (connect, STARTTLS, login, send, quit): it either completes or raises.
  \<open>requests_post\<close> is \<open>requests.post\<close> on a URL: it raises or returns a response, of which
  the status code is kept.
\<close>

record outside =
  smtp_dialogue :: "smtp_request \<Rightarrow> exn + unit"
  requests_post :: "string \<Rightarrow> http_body \<Rightarrow> exn + nat"

text \<open>\<open>requests.post(url, ...)\<close> with the URL \<open>None\<close> raises MissingSchema before sending.\<close>

definition post :: "outside \<Rightarrow> string option \<Rightarrow> http_body \<Rightarrow> exn + nat" where
  "post w url body =
     (case url of
        None \<Rightarrow> Inl (PyError ''MissingSchema'' ''Invalid URL: No scheme supplied'')
      | Some u \<Rightarrow> requests_post w u body)"

text \<open>\<open>response.raise_for_status()\<close> raises HTTPError for a status from 400 to 599.\<close>

definition raise_for_status :: "nat \<Rightarrow> exn + unit" where
  "raise_for_status status =
     (if 400 \<le> status \<and> status < 600 then Inl (PyError ''HTTPError'' ''bad status'')
      else Inr ())"

text \<open>\<open>response = requests.post(...); response.raise_for_status()\<close>\<close>

definition post_and_check :: "outside \<Rightarrow> string option \<Rightarrow> http_body \<Rightarrow> exn + unit" where
  "post_and_check w url body = bind_exn (post w url body) raise_for_status"

text \<open>
  \<open>try: body except Exception as e: handler(e)\<close>. Every value of \<open>exn\<close> is an instance
  of \<open>Exception\<close>, so the handler takes them all.
\<close>

definition try_except_Exception :: "exn + 'a \<Rightarrow> (exn \<Rightarrow> exn + 'a) \<Rightarrow> exn + 'a" where
  "try_except_Exception body handler =
     (case body of Inl e \<Rightarrow> handler e | Inr x \<Rightarrow> Inr x)"

text \<open>
  A log record: the level, the channel that wrote it and the variable part of its
  message (a title, or \<open>str(e)\<close>); the fixed wording is left out. A function returns the
  records it logged next to its result.
\<close>

datatype log_record = LogInfo string string | LogError string string

definition send_email_alert ::
    "outside \<Rightarrow> AlertNotifier \<Rightarrow> string \<Rightarrow> string \<Rightarrow> string list
       \<Rightarrow> exn + (bool \<times> log_record list)" where
  "send_email_alert w self subject message recipients =
     try_except_Exception
       (bind_exn (smtp_dialogue w (SmtpMail (smtp_server self) (smtp_port self)
            (smtp_username self) (smtp_password self) (from_address self)
            recipients subject message)) (\<lambda>_.
        Inr (True, [LogInfo ''email'' subject])))
       (\<lambda>e. Inr (False, [LogError ''email'' (str_exn e)]))"

text \<open>The colours of \<open>severity_config\<close>; the emoji of each entry is left out.\<close>

definition severity_config :: "(string \<times> string) list" where
  "severity_config = [(''info'', ''#36a64f''), (''warning'', ''#ffd700''), (''error'', ''#ff0000'')]"

definition send_slack_alert ::
    "outside \<Rightarrow> AlertNotifier \<Rightarrow> string \<Rightarrow> string \<Rightarrow> string
       \<Rightarrow> exn + (bool \<times> log_record list)" where
  "send_slack_alert w self title message severity =
     try_except_Exception
       (let color = dict_get severity_config (lower severity) ''#808080''
        in bind_exn (post_and_check w (slack_webhook self) (SlackPayload color title message))
             (\<lambda>_. Inr (True, [LogInfo ''slack'' title])))
       (\<lambda>e. Inr (False, [LogError ''slack'' (str_exn e)]))"

definition line_notify_url :: string where
  "line_notify_url = ''https://notify-api.line.me/api/notify''"

definition send_line_alert ::
    "outside \<Rightarrow> AlertNotifier \<Rightarrow> string \<Rightarrow> exn + (bool \<times> log_record list)" where
  "send_line_alert w self message =
     try_except_Exception
       (bind_exn (post_and_check w (Some line_notify_url) (LinePayload (line_token self) message))
          (\<lambda>_. Inr (True, [LogInfo ''line'' ''''])))
       (\<lambda>e. Inr (False, [LogError ''line'' (str_exn e)]))"

definition send_discord_alert ::
    "outside \<Rightarrow> AlertNotifier \<Rightarrow> string \<Rightarrow> string \<Rightarrow> int
       \<Rightarrow> exn + (bool \<times> log_record list)" where
  "send_discord_alert w self title message color =
     try_except_Exception
       (bind_exn (post_and_check w (discord_webhook self) (DiscordPayload title message color))
          (\<lambda>_. Inr (True, [LogInfo ''discord'' title])))
       (\<lambda>e. Inr (False, [LogError ''discord'' (str_exn e)]))"

text \<open>Truth value of an optional string: \<open>None\<close> and the empty string are false.\<close>

definition truthy_str :: "string option \<Rightarrow> bool" where
  "truthy_str s = (case s of None \<Rightarrow> False | Some t \<Rightarrow> t \<noteq> [])"

text \<open>
  \<open>results[channel] = send(...)\<close>: the send's result is stored under the channel, its
  log records are appended; an exception of the send would leave \<open>broadcast_alert\<close>.
\<close>

definition store_result ::
    "string \<Rightarrow> exn + (bool \<times> log_record list) \<Rightarrow> (string \<Rightarrow> bool option) \<times> log_record list
       \<Rightarrow> exn + ((string \<Rightarrow> bool option) \<times> log_record list)" where
  "store_result channel sent acc =
     bind_exn sent (\<lambda>(ok, logged). Inr ((fst acc)(channel \<mapsto> ok), snd acc @ logged))"

definition broadcast_alert ::
    "outside \<Rightarrow> AlertNotifier \<Rightarrow> string \<Rightarrow> string \<Rightarrow> string \<Rightarrow> string list option
       \<Rightarrow> exn + ((string \<Rightarrow> bool option) \<times> log_record list)" where
  "broadcast_alert w self title message severity email_recipients =
     bind_exn
       (case email_recipients of
          Some (r # rs) \<Rightarrow>
            store_result ''email'' (send_email_alert w self title message (r # rs))
              (Map.empty, [])
        | _ \<Rightarrow> Inr (Map.empty, [])) (\<lambda>results.
     bind_exn
       (if truthy_str (slack_webhook self)
        then store_result ''slack'' (send_slack_alert w self title message severity) results
        else Inr results) (\<lambda>results.
     bind_exn
       (if truthy_str (line_token self)
        then store_result ''line''
               (send_line_alert w self (title @ [CHR 0x0A, CHR 0x0A] @ message)) results
        else Inr results) (\<lambda>results.
     bind_exn
       (if truthy_str (discord_webhook self)
        then store_result ''discord'' (send_discord_alert w self title message 0xFF0000) results
        else Inr results) (\<lambda>results.
     Inr results))))"

text \<open>The boolean a send returned, if it returned.\<close>

definition returned :: "exn + (bool \<times> log_record list) \<Rightarrow> bool option" where
  "returned r = (case r of Inl e \<Rightarrow> None | Inr (ok, logged) \<Rightarrow> Some ok)"

text \<open>
  A notifier with Slack and Discord webhooks and no LINE token, and a world in which
  mail is refused, Slack answers 200 and Discord answers 500.
\<close>

definition example_notifier :: AlertNotifier where
  "example_notifier =
     \<lparr>smtp_server = Some ''smtp.example.org'', smtp_port = 587,
      smtp_username = Some ''alerts'', smtp_password = Some ''secret'',
      from_address = Some ''alerts@example.org'',
      slack_webhook = Some ''https://hooks.slack.example/T1'',
      line_token = None,
      discord_webhook = Some ''https://discord.example/api/webhooks/1''\<rparr>"

definition example_outside :: outside where
  "example_outside =
     \<lparr>smtp_dialogue = (\<lambda>req. Inl (PyError ''SMTPAuthenticationError'' ''refused'')),
      requests_post = (\<lambda>url body.
        if url = ''https://hooks.slack.example/T1'' then Inr 200 else Inr 500)\<rparr>"

subsection \<open>\<open>tools/payment_processor.py\<close>: charges and refunds\<close>

text \<open>What the payment SDK returns: the attributes of a charge and of a refund that are read.\<close>

record charge =
  charge_id :: string
  charge_amount :: int
  charge_receipt_url :: "string option"
  charge_status :: string
  charge_created :: pyval

record refund =
  refund_id :: string
  refund_amount :: int
  refund_status :: string
  refund_created :: pyval

text \<open>
  The SDK's two endpoints: \<open>stripe.Charge.create(amount, currency, source, description,
  receipt_email)\<close> and \<open>stripe.Refund.create(charge, amount)\<close>. Each returns its object or
  raises.
\<close>

record stripe =
  Charge_create :: "int \<Rightarrow> string \<Rightarrow> string \<Rightarrow> string \<Rightarrow> string \<Rightarrow> exn + charge"
  Refund_create :: "string \<Rightarrow> int option \<Rightarrow> exn + refund"

text \<open>Of the processor's attributes only the currency is read by the two methods.\<close>

record PaymentProcessor =
  currency :: string

definition new_PaymentProcessor :: PaymentProcessor where
  "new_PaymentProcessor = \<lparr>currency = ''jpy''\<rparr>"

text \<open>
  \<open>try: body except stripe.error.StripeError as e: handler(e)\<close>: the handler takes a
  StripeError, by its message and code; any other exception goes on to the caller.
\<close>

definition try_except_StripeError ::
    "exn + 'a \<Rightarrow> (string \<Rightarrow> string option \<Rightarrow> exn + 'a) \<Rightarrow> exn + 'a" where
  "try_except_StripeError body handler =
     (case body of
        Inl (StripeError msg code) \<Rightarrow> handler msg code
      | Inl (PyError cls msg) \<Rightarrow> Inl (PyError cls msg)
      | Inr x \<Rightarrow> Inr x)"

text \<open>An attribute that is a string or \<open>None\<close>.\<close>

definition opt_str :: "string option \<Rightarrow> pyval" where
  "opt_str s = (case s of None \<Rightarrow> PNone | Some t \<Rightarrow> PStr t)"

text \<open>
  The fixed part of the charge description, a Japanese text (the agency's name and
  "booking number:"), as its UTF-8 bytes.
\<close>

definition description_prefix :: string where
  "description_prefix =
     [CHR 0xE3, CHR 0x81, CHR 0xAD, CHR 0xE3, CHR 0x81, CHR 0x93, CHR 0xE3,
      CHR 0x81, CHR 0xAD, CHR 0xE3, CHR 0x81, CHR 0x93, CHR 0xE3, CHR 0x82,
      CHR 0xB9, CHR 0xE3, CHR 0x83, CHR 0x9A, CHR 0xE3, CHR 0x83, CHR 0xBC,
      CHR 0xE3, CHR 0x82, CHR 0xB9, CHR 0xE3, CHR 0x83, CHR 0x88, CHR 0xE3,
      CHR 0x83, CHR 0xA9, CHR 0xE3, CHR 0x83, CHR 0x99, CHR 0xE3, CHR 0x83,
      CHR 0xAB, CHR '' '', CHR ''-'', CHR '' '', CHR 0xE4, CHR 0xBA, CHR 0x88,
      CHR 0xE7, CHR 0xB4, CHR 0x84, CHR 0xE7, CHR 0x95, CHR 0xAA, CHR 0xE5,
      CHR 0x8F, CHR 0xB7, CHR '':'', CHR '' '']"

text \<open>
  \<open>datetime.fromtimestamp\<close>, the library function that both methods call on the
  \<open>created\<close> attribute inside the \<open>try\<close>. It returns the datetime or raises: TypeError
  for a value that is no number, OverflowError, OSError or ValueError for a timestamp
  beyond what the platform and its time zone convert. The range is the platform's, so
  the function is a parameter; its exceptions, given by class name and message, are
  never a StripeError.
\<close>

record datetime_lib =
  fromtimestamp :: "pyval \<Rightarrow> (string \<times> string) + int"

definition datetime_fromtimestamp :: "datetime_lib \<Rightarrow> pyval \<Rightarrow> exn + pyval" where
  "datetime_fromtimestamp lib ts =
     (case fromtimestamp lib ts of
        Inl (cls, msg) \<Rightarrow> Inl (PyError cls msg)
      | Inr t \<Rightarrow> Inr (PDatetime t))"

text \<open>
  The result dictionaries are given by their items in the order of the literal, which
  is the order of evaluation: the call of \<open>datetime.fromtimestamp\<close> comes last.
\<close>

definition process_payment ::
    "stripe \<Rightarrow> datetime_lib \<Rightarrow> PaymentProcessor \<Rightarrow> int \<Rightarrow> string \<Rightarrow> string \<Rightarrow> string
       \<Rightarrow> exn + (string \<times> pyval) list" where
  "process_payment sdk lib self amount token customer_email booking_ref =
     try_except_StripeError
       (bind_exn (Charge_create sdk amount (currency self) token
            (description_prefix @ booking_ref) customer_email) (\<lambda>charge.
        bind_exn (datetime_fromtimestamp lib (charge_created charge)) (\<lambda>created.
        Inr [(''success'', PBool True),
             (''transaction_id'', PStr (charge_id charge)),
             (''amount'', PInt (charge_amount charge)),
             (''receipt_url'', opt_str (charge_receipt_url charge)),
             (''status'', PStr (charge_status charge)),
             (''created'', created)])))
       (\<lambda>msg code.
        Inr [(''success'', PBool False),
             (''error'', PStr msg),
             (''error_code'', opt_str code),
             (''booking_ref'', PStr booking_ref)])"

definition process_refund ::
    "stripe \<Rightarrow> datetime_lib \<Rightarrow> PaymentProcessor \<Rightarrow> string \<Rightarrow> int option
       \<Rightarrow> exn + (string \<times> pyval) list" where
  "process_refund sdk lib self transaction_id amount =
     try_except_StripeError
       (bind_exn (Refund_create sdk transaction_id amount) (\<lambda>refund.
        bind_exn (datetime_fromtimestamp lib (refund_created refund)) (\<lambda>created.
        Inr [(''success'', PBool True),
             (''refund_id'', PStr (refund_id refund)),
             (''amount'', PInt (refund_amount refund)),
             (''status'', PStr (refund_status refund)),
             (''created'', created)])))
       (\<lambda>msg code.
        Inr [(''success'', PBool False),
             (''error'', PStr msg),
             (''error_code'', opt_str code),
             (''transaction_id'', PStr transaction_id)])"

text \<open>
  An example of the library function: the timestamps of the years 1970 to 9999 convert,
  a timestamp of magnitude \<open>10 ^ 17\<close> or more raises OSError, any other ValueError, a
  value that is no integer TypeError.
\<close>

definition example_datetime :: datetime_lib where
  "example_datetime =
     \<lparr>fromtimestamp = (\<lambda>v.
        case v of
          PInt ts \<Rightarrow>
            if 0 \<le> ts \<and> ts \<le> 253402300799 then Inr ts
            else if 100000000000000000 \<le> \<bar>ts\<bar>
            then Inl (''OSError'', ''Value too large for defined data type'')
            else Inl (''ValueError'', ''year is out of range'')
        | _ \<Rightarrow> Inl (''TypeError'', ''an integer is required''))\<rparr>"

text \<open>
  Four SDK behaviours: both calls raise a TypeError, which is not a StripeError; both
  calls raise a CardError, which is one; both calls succeed; both calls succeed with an
  object whose \<open>created\<close> is \<open>10 ^ 18\<close>.
\<close>

definition sdk_type_error :: stripe where
  "sdk_type_error =
     \<lparr>Charge_create = (\<lambda>amount cur source description email.
        Inl (PyError ''TypeError'' ''unsupported parameter'')),
      Refund_create = (\<lambda>ch amount. Inl (PyError ''TypeError'' ''unsupported parameter''))\<rparr>"

definition sdk_card_error :: stripe where
  "sdk_card_error =
     \<lparr>Charge_create = (\<lambda>amount cur source description email.
        Inl (StripeError ''Your card was declined.'' (Some ''card_declined''))),
      Refund_create = (\<lambda>ch amount.
        Inl (StripeError ''Charge has already been refunded.'' (Some ''charge_already_refunded'')))\<rparr>"

definition sdk_accepts :: stripe where
  "sdk_accepts =
     \<lparr>Charge_create = (\<lambda>amount cur source description email.
        Inr \<lparr>charge_id = ''ch_1'', charge_amount = amount, charge_receipt_url = None,
             charge_status = ''succeeded'', charge_created = PInt 1700000000\<rparr>),
      Refund_create = (\<lambda>ch amount.
        Inr \<lparr>refund_id = ''re_1'', refund_amount = (case amount of None \<Rightarrow> 5000 | Some a \<Rightarrow> a),
             refund_status = ''succeeded'', refund_created = PInt 1700000100\<rparr>)\<rparr>"

definition sdk_far_future :: stripe where
  "sdk_far_future =
     \<lparr>Charge_create = (\<lambda>amount cur source description email.
        Inr \<lparr>charge_id = ''ch_2'', charge_amount = amount, charge_receipt_url = None,
             charge_status = ''succeeded'', charge_created = PInt 1000000000000000000\<rparr>),
      Refund_create = (\<lambda>ch amount.
        Inr \<lparr>refund_id = ''re_2'', refund_amount = 5000, refund_status = ''succeeded'',
             refund_created = PInt 1000000000000000000\<rparr>)\<rparr>"

subsection \<open>\<open>monitoring/metrics.py\<close>: the metrics manager\<close>

text \<open>
  The methods that class \<open>MetricsManager\<close> defines. It defines no \<open>record_metric\<close>: the
  attribute lookup \<open>metrics_manager.record_metric\<close> raises AttributeError before any call
  is made.
\<close>

definition MetricsManager_methods :: "string list" where
  "MetricsManager_methods =
     [''record_booking'', ''start_user_session'', ''end_user_session'', ''record_error'',
      ''measure_latency'']"

definition metrics_manager_getattr :: "string \<Rightarrow> exn + unit" where
  "metrics_manager_getattr name =
     (if name \<in> set MetricsManager_methods then Inr ()
      else Inl (PyError ''AttributeError'' (''MetricsManager object has no attribute '' @ name)))"

text \<open>\<open>metrics_manager.record_metric(name, value)\<close>, as the monitor calls it.\<close>

definition record_metric :: "string \<Rightarrow> pyval \<Rightarrow> exn + unit" where
  "record_metric name v = bind_exn (metrics_manager_getattr ''record_metric'') (\<lambda>_. Inr ())"

subsection \<open>\<open>monitoring/system_monitor.py\<close>: the polling loop\<close>

text \<open>
  What the monitor does to the outside: an alert (the warning record and one call of
  every registered callback, each call in its own handler), a log record, an increment
  of the error counter by \<open>record_error\<close>.
\<close>

datatype monitor_event =
    Alert string "(string \<times> pyval) list"
  | Logged log_record
  | ErrorCounted string

text \<open>A step of the monitor: its result or exception, and the events it caused.\<close>

type_synonym 'a io = "(exn + 'a) \<times> monitor_event list"

definition bind_io :: "'a io \<Rightarrow> ('a \<Rightarrow> 'b io) \<Rightarrow> 'b io" where
  "bind_io m f =
     (case m of
        (Inl e, events) \<Rightarrow> (Inl e, events)
      | (Inr x, events) \<Rightarrow> (case f x of (r, events') \<Rightarrow> (r, events @ events')))"

definition try_except_io :: "'a io \<Rightarrow> (exn \<Rightarrow> 'a io) \<Rightarrow> 'a io" where
  "try_except_io body handler =
     (case body of
        (Inl e, events) \<Rightarrow> (case handler e of (r, events') \<Rightarrow> (r, events @ events'))
      | (Inr x, events) \<Rightarrow> (Inr x, events))"

definition quiet :: "exn + 'a \<Rightarrow> 'a io" where
  "quiet r = (r, [])"

definition after :: "monitor_event list \<Rightarrow> 'a io \<Rightarrow> 'a io" where
  "after events m = (fst m, events @ snd m)"

text \<open>
  What \<open>psutil\<close> and the clock report in one iteration: CPU, memory and disk percent (the
  three calls raise or give the three readings), the network counters, the timestamp.
\<close>

record net_io =
  bytes_sent :: nat
  bytes_recv :: nat
  packets_sent :: nat
  packets_recv :: nat
  errin :: nat
  errout :: nat

record os =
  psutil_resources :: "exn + (rat \<times> rat \<times> rat)"
  psutil_net_io_counters :: "exn + net_io"
  now_isoformat :: string

record SystemMonitor =
  check_interval :: int
  alert_threshold :: "(string \<times> rat) list"

definition default_alert_threshold :: "(string \<times> rat) list" where
  "default_alert_threshold =
     [(''cpu_percent'', 80), (''memory_percent'', 85), (''disk_percent'', 90),
      (''network_error_rate'', 1 / 100)]"

text \<open>\<open>__init__\<close>: \<open>alert_threshold or {...}\<close> takes the defaults for \<open>None\<close> and for \<open>{}\<close>.\<close>

definition new_SystemMonitor :: "int \<Rightarrow> (string \<times> rat) list option \<Rightarrow> SystemMonitor" where
  "new_SystemMonitor interval threshold =
     \<lparr>check_interval = interval,
      alert_threshold =
        (case threshold of
           None \<Rightarrow> default_alert_threshold
         | Some [] \<Rightarrow> default_alert_threshold
         | Some (t # ts) \<Rightarrow> t # ts)\<rparr>"

text \<open>
  \<open>for key, value in metrics.items(): if key != "timestamp":
  metrics_manager.record_metric(f"system_{key}", value)\<close>
\<close>

fun record_system_metrics :: "(string \<times> pyval) list \<Rightarrow> exn + unit" where
  "record_system_metrics [] = Inr ()"
| "record_system_metrics ((key, v) # items) =
     (if key \<noteq> ''timestamp''
      then (case record_metric (''system_'' @ key) v of
              Inl e \<Rightarrow> Inl e
            | Inr u \<Rightarrow> record_system_metrics items)
      else record_system_metrics items)"

definition check_system_resources :: "os \<Rightarrow> (string \<times> pyval) list io" where
  "check_system_resources w =
     try_except_io
       (quiet
          (bind_exn (psutil_resources w) (\<lambda>(cpu_percent, memory_percent, disk_percent).
           let metrics = [(''cpu_percent'', PFloat cpu_percent),
                          (''memory_percent'', PFloat memory_percent),
                          (''disk_percent'', PFloat disk_percent),
                          (''timestamp'', PStr (now_isoformat w))]
           in bind_exn (record_system_metrics metrics) (\<lambda>_. Inr metrics))))
       (\<lambda>e. (Inr [],
              [Logged (LogError ''check_system_resources'' (str_exn e)),
               ErrorCounted ''system_check_failed'']))"

text \<open>
  \<open>for key, value in metrics.items(): metrics_manager.record_metric(f"network_{key}",
  value)\<close>
\<close>

fun record_network_metrics :: "(string \<times> pyval) list \<Rightarrow> exn + unit" where
  "record_network_metrics [] = Inr ()"
| "record_network_metrics ((key, v) # items) =
     (case record_metric (''network_'' @ key) v of
        Inl e \<Rightarrow> Inl e
      | Inr u \<Rightarrow> record_network_metrics items)"

definition check_network_health :: "os \<Rightarrow> (string \<times> pyval) list io" where
  "check_network_health w =
     try_except_io
       (quiet
          (bind_exn (psutil_net_io_counters w) (\<lambda>net.
           let metrics =
                 [(''bytes_sent'', PInt (int (bytes_sent net))),
                  (''bytes_recv'', PInt (int (bytes_recv net))),
                  (''packets_sent'', PInt (int (packets_sent net))),
                  (''packets_recv'', PInt (int (packets_recv net))),
                  (''error_rate'',
                     PFloat (of_nat (errin net + errout net)
                               / of_nat (packets_sent net + packets_recv net + 1)))]
           in bind_exn (record_network_metrics metrics) (\<lambda>_. Inr metrics))))
       (\<lambda>e. (Inr [],
              [Logged (LogError ''check_network_health'' (str_exn e)),
               ErrorCounted ''network_check_failed'']))"

text \<open>
  \<open>for service, status in health_status.items():
  metrics_manager.record_metric(f"service_{service}_health", 1 if status else 0)\<close>
\<close>

fun record_service_metrics :: "(string \<times> bool) list \<Rightarrow> exn + unit" where
  "record_service_metrics [] = Inr ()"
| "record_service_metrics ((service, status) # items) =
     (case record_metric (''service_'' @ service @ ''_health'') (PInt (if status then 1 else 0)) of
        Inl e \<Rightarrow> Inl e
      | Inr u \<Rightarrow> record_service_metrics items)"

text \<open>The four service checks return True; the method has no handler of its own.\<close>

definition check_application_health :: "(string \<times> bool) list io" where
  "check_application_health =
     (let health_status = [(''web_server'', True), (''database'', True), (''redis'', True),
                           (''message_queue'', True)]
      in quiet (bind_exn (record_service_metrics health_status) (\<lambda>_. Inr health_status)))"

text \<open>
  The scan of the loop: \<open>for key, value in resources.items(): if key in
  self.alert_threshold and value > self.alert_threshold[key]: self.alert(...)\<close>
\<close>

fun scan_resources :: "(string \<times> rat) list \<Rightarrow> (string \<times> pyval) list \<Rightarrow> unit io" where
  "scan_resources thresholds [] = (Inr (), [])"
| "scan_resources thresholds ((key, v) # items) =
     (case map_of thresholds key of
        None \<Rightarrow> scan_resources thresholds items
      | Some threshold \<Rightarrow>
          (case greater_than v threshold of
             Inl e \<Rightarrow> (Inl e, [])
           | Inr exceeded \<Rightarrow>
               after
                 (if exceeded
                  then [Alert ''resource_threshold_exceeded''
                          [(''metric'', PStr key), (''value'', v),
                           (''threshold'', PFloat threshold)]]
                  else [])
                 (scan_resources thresholds items)))"

text \<open>
  \<open>if network.get("error_rate", 0) > self.alert_threshold["network_error_rate"]:
  self.alert("network_errors", network)\<close>
\<close>

definition scan_network :: "(string \<times> rat) list \<Rightarrow> (string \<times> pyval) list \<Rightarrow> unit io" where
  "scan_network thresholds network =
     (case map_of thresholds ''network_error_rate'' of
        None \<Rightarrow> (Inl (PyError ''KeyError'' ''network_error_rate''), [])
      | Some threshold \<Rightarrow>
          (case greater_than (dict_get network ''error_rate'' (PInt 0)) threshold of
             Inl e \<Rightarrow> (Inl e, [])
           | Inr exceeded \<Rightarrow>
               (Inr (), if exceeded then [Alert ''network_errors'' network] else [])))"

text \<open>\<open>for service, status in health.items(): if not status: self.alert(...)\<close>\<close>

fun scan_health :: "(string \<times> bool) list \<Rightarrow> unit io" where
  "scan_health [] = (Inr (), [])"
| "scan_health ((service, status) # items) =
     after
       (if \<not> status
        then [Alert ''service_unhealthy''
                [(''service'', PStr service), (''status'', PBool status)]]
        else [])
       (scan_health items)"

text \<open>The body of the \<open>while\<close> loop, up to the \<open>sleep\<close>: the events of one iteration.\<close>

definition monitoring_iteration :: "SystemMonitor \<Rightarrow> os \<Rightarrow> monitor_event list" where
  "monitoring_iteration self w =
     snd (try_except_io
       (bind_io (check_system_resources w) (\<lambda>resources.
        bind_io (scan_resources (alert_threshold self) resources) (\<lambda>_.
        bind_io (check_network_health w) (\<lambda>network.
        bind_io (scan_network (alert_threshold self) network) (\<lambda>_.
        bind_io check_application_health (\<lambda>health.
        scan_health health))))))
       (\<lambda>e. (Inr (),
              [Logged (LogError ''_monitoring_loop'' (str_exn e)),
               ErrorCounted ''monitoring_loop_error''])))"

text \<open>
  The loop \<open>while not self._stop_monitoring.is_set()\<close> over the successive states of the
  outside, each with the reading of the stop flag at the loop's test: the events of each
  iteration that runs.
\<close>

fun monitoring_loop :: "SystemMonitor \<Rightarrow> (bool \<times> os) list \<Rightarrow> monitor_event list list" where
  "monitoring_loop self [] = []"
| "monitoring_loop self ((stop_is_set, w) # rest) =
     (if stop_is_set then [] else monitoring_iteration self w # monitoring_loop self rest)"

text \<open>A machine at 95 percent CPU, 50 percent memory and disk, with a quiet network.\<close>

definition busy_os :: os where
  "busy_os =
     \<lparr>psutil_resources = Inr (95, 50, 50),
      psutil_net_io_counters =
        Inr \<lparr>bytes_sent = 1000, bytes_recv = 2000, packets_sent = 10, packets_recv = 20,
             errin = 0, errout = 0\<rparr>,
      now_isoformat = ''2024-01-01T00:00:00''\<rparr>"

section \<open>Theorems\<close>

subsection \<open>Rounding to a double\<close>

lemma round_half_even_of_int: "round_half_even (of_int k) = k"
  by (simp add: round_half_even_def)

lemma round_half_even_cases:
  "round_half_even r = \<lfloor>r\<rfloor> \<or> round_half_even r = \<lfloor>r\<rfloor> + 1"
  by (simp add: round_half_even_def Let_def)

lemma round_half_even_mono:
  assumes "r \<le> s"
  shows "round_half_even r \<le> round_half_even s"
proof -
  have fg: "\<lfloor>r\<rfloor> \<le> \<lfloor>s\<rfloor>"
    using assms by (rule floor_mono)
  show ?thesis
  proof (cases "\<lfloor>r\<rfloor> < \<lfloor>s\<rfloor>")
    case True
    have "round_half_even r \<le> \<lfloor>r\<rfloor> + 1"
      using round_half_even_cases [of r] by auto
    moreover have "\<lfloor>s\<rfloor> \<le> round_half_even s"
      using round_half_even_cases [of s] by auto
    ultimately show ?thesis using True by simp
  next
    case False
    with fg have eq: "\<lfloor>r\<rfloor> = \<lfloor>s\<rfloor>" by simp
    then have "r - of_int \<lfloor>r\<rfloor> \<le> s - of_int \<lfloor>s\<rfloor>"
      using assms by simp
    then show ?thesis
      unfolding round_half_even_def Let_def eq by auto
  qed
qed

lemma pow2_shift: "0 \<le> e \<Longrightarrow> pow2 (e - 52) = 2 ^ nat e / 2 ^ 52"
proof (cases "52 \<le> e")
  case True
  assume "0 \<le> e"
  from True have "nat e = nat (e - 52) + 52" by simp
  then have "(2::rat) ^ nat e = 2 ^ nat (e - 52) * 2 ^ 52"
    by (simp add: power_add)
  with True show ?thesis by (simp add: pow2_def)
next
  case False
  assume e: "0 \<le> e"
  have "pow2 (e - 52) = 1 / 2 ^ nat (52 - e)"
    using False by (simp add: pow2_def)
  also have "\<dots> = 2 ^ nat e / 2 ^ (nat (52 - e) + nat e)"
    by (simp add: power_add)
  also have "nat (52 - e) + nat e = 52"
    using False e by simp
  finally show ?thesis .
qed

lemma exponent_bounds:
  assumes "1 \<le> x"
  shows "0 \<le> exponent x" and "2 ^ nat (exponent x) \<le> x" and "x < 2 * 2 ^ nat (exponent x)"
proof -
  let ?n = "\<lfloor>x\<rfloor>"
  have pos: "0 < ?n" using assms by simp
  have e: "exponent x = bitlen ?n - 1" using assms by (simp add: exponent_def)
  have "\<not> bitlen ?n = 0"
    unfolding bitlen_eq_zero_iff using pos by linarith
  then have b1: "1 \<le> bitlen ?n"
    using bitlen_nonneg [of ?n] by linarith
  then show "0 \<le> exponent x" by (simp add: e)
  from bitlen_bounds [OF pos] have lo: "2 ^ nat (bitlen ?n - 1) \<le> ?n"
    and hi: "?n < 2 ^ nat (bitlen ?n)" by simp_all
  have "(2::rat) ^ nat (bitlen ?n - 1) = of_int (2 ^ nat (bitlen ?n - 1))" by simp
  also have "\<dots> \<le> of_int ?n" using lo by (simp only: of_int_le_iff)
  also have "\<dots> \<le> x" by simp
  finally show "2 ^ nat (exponent x) \<le> x" by (simp add: e)
  from hi have "?n + 1 \<le> 2 ^ nat (bitlen ?n)" by simp
  then have "(of_int (?n + 1) :: rat) \<le> of_int (2 ^ nat (bitlen ?n))"
    by (simp only: of_int_le_iff)
  moreover have "x < of_int (?n + 1)" by linarith
  ultimately have "x < 2 ^ nat (bitlen ?n)" by simp
  moreover from b1 have "nat (bitlen ?n) = Suc (nat (bitlen ?n - 1))" by simp
  ultimately show "x < 2 * 2 ^ nat (exponent x)" by (simp add: e)
qed

lemma bitlen_mono: "a \<le> b \<Longrightarrow> bitlen a \<le> bitlen b"
  by (simp add: bitlen_def floorlog_mono)

lemma exponent_mono:
  assumes "1 \<le> x" and "x \<le> y"
  shows "exponent x \<le> exponent y"
proof -
  have "\<lfloor>x\<rfloor> \<le> \<lfloor>y\<rfloor>" using assms(2) by (rule floor_mono)
  then have "bitlen \<lfloor>x\<rfloor> \<le> bitlen \<lfloor>y\<rfloor>" by (rule bitlen_mono)
  then show ?thesis using assms by (simp add: exponent_def)
qed

lemma round_double_ge1:
  assumes "1 \<le> x"
  shows "round_double x
    = of_int (round_half_even (x * 2 ^ 52 / 2 ^ nat (exponent x)))
        * (2 ^ nat (exponent x) / 2 ^ 52)"
proof -
  have e: "0 \<le> exponent x" using assms by (rule exponent_bounds)
  then have m: "max (exponent x) (- 1022) = exponent x" by simp
  have "x \<noteq> 0" "\<bar>x\<bar> = x" "sgn x = 1" using assms by simp_all
  then show ?thesis
    by (simp add: round_double_def Let_def m pow2_shift [OF e])
qed

lemma round_double_bounds:
  assumes "1 \<le> x"
  shows "2 ^ nat (exponent x) \<le> round_double x"
    and "round_double x \<le> 2 * 2 ^ nat (exponent x)"
proof -
  let ?p = "(2::rat) ^ nat (exponent x)"
  let ?r = "x * 2 ^ 52 / ?p"
  have p: "0 < ?p" by simp
  have lo: "2 ^ 52 \<le> ?r"
    using exponent_bounds(2) [OF assms] p by (simp add: pos_le_divide_eq)
  have hi: "?r \<le> 2 ^ 53"
    using exponent_bounds(3) [OF assms] p by (simp add: pos_divide_le_eq)
  have "round_half_even (of_int (2 ^ 52)) \<le> round_half_even ?r"
    by (rule round_half_even_mono) (use lo in simp)
  then have a: "2 ^ 52 \<le> round_half_even ?r"
    by (simp only: round_half_even_of_int)
  have "round_half_even ?r \<le> round_half_even (of_int (2 ^ 53))"
    by (rule round_half_even_mono) (use hi in simp)
  then have b: "round_half_even ?r \<le> 2 ^ 53"
    by (simp only: round_half_even_of_int)
  from a have "(of_int (2 ^ 52) :: rat) \<le> of_int (round_half_even ?r)"
    by (simp only: of_int_le_iff)
  then have "(2 ^ 52 :: rat) * (?p / 2 ^ 52) \<le> of_int (round_half_even ?r) * (?p / 2 ^ 52)"
    by (intro mult_right_mono) simp_all
  then show "?p \<le> round_double x"
    by (simp add: round_double_ge1 [OF assms])
  from b have "(of_int (round_half_even ?r) :: rat) \<le> of_int (2 ^ 53)"
    by (simp only: of_int_le_iff)
  then have "of_int (round_half_even ?r) * (?p / 2 ^ 52) \<le> (2 ^ 53 :: rat) * (?p / 2 ^ 52)"
    by (intro mult_right_mono) simp_all
  then show "round_double x \<le> 2 * ?p"
    by (simp add: round_double_ge1 [OF assms])
qed

lemma round_double_mono_ge1:
  assumes "1 \<le> x" and "x \<le> y"
  shows "round_double x \<le> round_double y"
proof -
  have y: "1 \<le> y" using assms by simp
  have le: "exponent x \<le> exponent y" using assms by (rule exponent_mono)
  show ?thesis
  proof (cases "exponent x = exponent y")
    case True
    let ?p = "(2::rat) ^ nat (exponent y)"
    have "x * 2 ^ 52 / ?p \<le> y * 2 ^ 52 / ?p"
      using assms(2) by (simp add: divide_right_mono)
    then have "round_half_even (x * 2 ^ 52 / ?p) \<le> round_half_even (y * 2 ^ 52 / ?p)"
      by (rule round_half_even_mono)
    then have "(of_int (round_half_even (x * 2 ^ 52 / ?p)) :: rat)
                 \<le> of_int (round_half_even (y * 2 ^ 52 / ?p))"
      by (simp only: of_int_le_iff)
    then have "of_int (round_half_even (x * 2 ^ 52 / ?p)) * (?p / 2 ^ 52)
                 \<le> of_int (round_half_even (y * 2 ^ 52 / ?p)) * (?p / 2 ^ 52)"
      by (intro mult_right_mono) simp_all
    then show ?thesis
      by (simp add: round_double_ge1 [OF assms(1)] round_double_ge1 [OF y] True)
  next
    case False
    with le have "exponent x + 1 \<le> exponent y" by simp
    moreover have "0 \<le> exponent x" using assms(1) by (rule exponent_bounds)
    ultimately have "Suc (nat (exponent x)) \<le> nat (exponent y)" by simp
    then have "(2::rat) ^ Suc (nat (exponent x)) \<le> 2 ^ nat (exponent y)"
      by (intro power_increasing) simp_all
    then have "2 * (2::rat) ^ nat (exponent x) \<le> 2 ^ nat (exponent y)" by simp
    with round_double_bounds(2) [OF assms(1)] round_double_bounds(1) [OF y]
    show ?thesis by linarith
  qed
qed

lemma round_double_zero: "round_double 0 = 0"
  by (simp add: round_double_def)

lemma round_double_ge1_ge1: "1 \<le> x \<Longrightarrow> 1 \<le> round_double x"
proof -
  assume x: "1 \<le> x"
  have "(1::rat) \<le> 2 ^ nat (exponent x)" by simp
  with round_double_bounds(1) [OF x] show ?thesis by linarith
qed

lemma round_double_mono:
  assumes "x = 0 \<or> 1 \<le> x" and "y = 0 \<or> 1 \<le> y" and "x \<le> y"
  shows "round_double x \<le> round_double y"
proof (cases "x = 0")
  case True
  from assms(2) have "0 \<le> round_double y"
    using round_double_ge1_ge1 [of y] by (auto simp: round_double_zero)
  with True show ?thesis by (simp add: round_double_zero)
next
  case False
  with assms show ?thesis by (simp add: round_double_mono_ge1)
qed

lemma round_double_exact:
  assumes "1 \<le> m" and "m < 2 ^ 53"
  shows "round_double (of_int (m * 2 ^ k)) = of_int (m * 2 ^ k)"
proof -
  define x :: rat where "x = of_int (m * 2 ^ k)"
  have xm: "x = of_int m * 2 ^ k"
    by (simp add: x_def)
  have fl: "\<lfloor>x\<rfloor> = m * 2 ^ k"
    unfolding x_def by (rule floor_of_int)
  have x1: "1 \<le> x"
  proof -
    have "1 * 1 \<le> m * 2 ^ k"
      using assms(1) by (intro mult_mono) simp_all
    then show ?thesis unfolding x_def by (simp only: mult_1 of_int_1_le_iff)
  qed
  have pos: "0 < m" using assms(1) by simp
  have bl: "bitlen m \<le> 53"
    using assms(2) by (simp add: bitlen_le_iff_power)
  have b1: "1 \<le> bitlen m"
  proof -
    have "\<not> bitlen m = 0"
      unfolding bitlen_eq_zero_iff using pos by linarith
    then show ?thesis using bitlen_nonneg [of m] by linarith
  qed
  have e: "exponent x = bitlen m + int k - 1"
    using x1 pos by (simp add: exponent_def fl)
  define j where "j = nat (53 - bitlen m)"
  have ne: "nat (exponent x) + j = k + 52"
    using bl b1 by (simp add: e j_def)
  have "x * 2 ^ 52 / 2 ^ nat (exponent x) = of_int (m * 2 ^ j)"
  proof -
    have "x * 2 ^ 52 = of_int m * 2 ^ (k + 52)"
      by (simp add: xm power_add)
    also have "\<dots> = of_int m * 2 ^ (nat (exponent x) + j)"
      by (simp only: ne)
    also have "\<dots> = of_int (m * 2 ^ j) * 2 ^ nat (exponent x)"
      by (simp add: power_add)
    finally show ?thesis by simp
  qed
  then have "round_double x = of_int (m * 2 ^ j) * (2 ^ nat (exponent x) / 2 ^ 52)"
    by (simp only: round_double_ge1 [OF x1] round_half_even_of_int)
  also have "\<dots> = of_int m * 2 ^ (nat (exponent x) + j) / 2 ^ 52"
    by (simp add: power_add)
  also have "\<dots> = of_int m * 2 ^ (k + 52) / 2 ^ 52"
    by (simp only: ne)
  also have "\<dots> = x"
    by (simp add: xm power_add)
  finally show ?thesis unfolding x_def .
qed

lemma round_double_int:
  assumes "\<bar>n\<bar> \<le> 2 ^ 53"
  shows "round_double (of_int n) = of_int n"
proof -
  have pos: "round_double (of_int i) = of_int i" if "0 < i" "i \<le> 2 ^ 53" for i :: int
  proof (cases "i = 2 ^ 53")
    case True
    have "round_double (of_int (1 * 2 ^ 53)) = of_int (1 * 2 ^ 53)"
      by (rule round_double_exact) simp_all
    with True show ?thesis by simp
  next
    case False
    with that have "1 \<le> i" "i < 2 ^ 53" by simp_all
    from round_double_exact [OF this, of 0] show ?thesis by simp
  qed
  have neg: "round_double (- x) = - round_double x" for x
    by (simp add: round_double_def Let_def)
  consider "n = 0" | "0 < n" | "n < 0" by linarith
  then show ?thesis
  proof cases
    case 1
    then show ?thesis by (simp add: round_double_zero)
  next
    case 2
    with assms show ?thesis by (intro pos) simp_all
  next
    case 3
    with assms have "round_double (of_int (- n)) = of_int (- n)"
      by (intro pos) simp_all
    then show ?thesis using neg [of "of_int n"] by simp
  qed
qed

subsection \<open>Float multiplication\<close>

lemma float_mul_commute: "float_mul x y = float_mul y x"
  by (cases x; cases y) (simp_all add: mult.commute)

lemma float_of_int_exact:
  assumes "\<bar>n\<bar> \<le> 2 ^ 53"
  shows "float_of_int n = Inr (Finite (of_int n))"
proof -
  have r: "round_double (of_int n) = of_int n"
    using assms by (rule round_double_int)
  have "(of_int \<bar>n\<bar> :: rat) \<le> of_int (2 ^ 53)"
    using assms by (simp only: of_int_le_iff)
  then have "\<bar>of_int n :: rat\<bar> \<le> 2 ^ 53" by simp
  moreover have "(2::rat) ^ 53 < 2 ^ 1024" by simp
  ultimately have "\<not> 2 ^ 1024 \<le> \<bar>of_int n :: rat\<bar>" by linarith
  then show ?thesis
    by (simp add: float_of_int_def r Let_def)
qed

lemma float_mul_exact:
  assumes "\<bar>n\<bar> \<le> 2 ^ 53" and "a * b = of_int n"
  shows "float_mul (Finite a) (Finite b) = Finite (of_int n)"
proof -
  have r: "round_double (a * b) = of_int n"
    unfolding assms(2) using assms(1) by (rule round_double_int)
  have "(of_int \<bar>n\<bar> :: rat) \<le> of_int (2 ^ 53)"
    using assms(1) by (simp only: of_int_le_iff)
  then have "\<bar>of_int n :: rat\<bar> \<le> 2 ^ 53" by simp
  moreover have "(2::rat) ^ 53 < 2 ^ 1024" by simp
  ultimately have "\<not> 2 ^ 1024 \<le> (of_int n :: rat)" "\<not> (of_int n :: rat) \<le> - (2 ^ 1024)"
    by linarith+
  then show ?thesis
    by (simp add: r Let_def)
qed

lemma float_mul_nonneg:
  assumes "a = 0 \<or> 1 \<le> a" and "b = 0 \<or> 1 \<le> b"
  shows "float_mul (Finite a) (Finite b)
    = (if 2 ^ 1024 \<le> round_double (a * b) then PosInf else Finite (round_double (a * b)))"
    and "a * b = 0 \<or> 1 \<le> a * b"
    and "round_double (a * b) = 0 \<or> 1 \<le> round_double (a * b)"
proof -
  show w: "a * b = 0 \<or> 1 \<le> a * b"
  proof (cases "a = 0 \<or> b = 0")
    case True
    then show ?thesis by auto
  next
    case False
    with assms have "1 \<le> a" "1 \<le> b" by auto
    then have "1 * 1 \<le> a * b" by (intro mult_mono) simp_all
    then show ?thesis by simp
  qed
  then show r: "round_double (a * b) = 0 \<or> 1 \<le> round_double (a * b)"
    using round_double_ge1_ge1 [of "a * b"] by (auto simp: round_double_zero)
  then have "\<not> round_double (a * b) \<le> - (2 ^ 1024)"
    by auto
  then show "float_mul (Finite a) (Finite b)
    = (if 2 ^ 1024 \<le> round_double (a * b) then PosInf else Finite (round_double (a * b)))"
    by (simp add: Let_def)
qed

lemma float_mul_closed:
  assumes "x = PosInf \<or> (\<exists>a. x = Finite a \<and> (a = 0 \<or> 1 \<le> a))"
    and "y = PosInf \<or> (\<exists>b. y = Finite b \<and> (b = 0 \<or> 1 \<le> b))"
  shows "float_mul x y = NaN \<or> float_mul x y = PosInf
           \<or> (\<exists>c. float_mul x y = Finite c \<and> (c = 0 \<or> 1 \<le> c))"
proof -
  consider "x = PosInf" "y = PosInf"
    | a where "x = Finite a" "a = 0 \<or> 1 \<le> a" "y = PosInf"
    | b where "x = PosInf" "y = Finite b" "b = 0 \<or> 1 \<le> b"
    | a b where "x = Finite a" "a = 0 \<or> 1 \<le> a" "y = Finite b" "b = 0 \<or> 1 \<le> b"
    using assms by blast
  then show ?thesis
  proof cases
    case 1
    then show ?thesis by simp
  next
    case 2
    then show ?thesis by auto
  next
    case 3
    then show ?thesis by auto
  next
    case 4
    from float_mul_nonneg [OF 4(2) 4(4)] 4(1,3) show ?thesis by auto
  qed
qed

lemma float_mul_mono_left:
  assumes x: "x = PosInf \<or> (\<exists>a. x = Finite a \<and> (a = 0 \<or> 1 \<le> a))"
    and x': "x' = PosInf \<or> (\<exists>a. x' = Finite a \<and> (a = 0 \<or> 1 \<le> a))"
    and y: "y = PosInf \<or> (\<exists>b. y = Finite b \<and> (b = 0 \<or> 1 \<le> b))"
    and le: "float_le x x'"
    and n: "float_mul x y \<noteq> NaN" and n': "float_mul x' y \<noteq> NaN"
  shows "float_le (float_mul x y) (float_mul x' y)"
proof (cases y)
  case (Finite b)
  with y have b: "b = 0 \<or> 1 \<le> b" by simp
  show ?thesis
  proof (cases "b = 0")
    case True
    with Finite n n' x x' obtain a a' where "x = Finite a" "x' = Finite a'"
      by (cases x; cases x') auto
    with True Finite show ?thesis
      by (simp add: round_double_zero Let_def)
  next
    case False
    with b have b1: "1 \<le> b" by simp
    show ?thesis
    proof (cases x')
      case PosInf
      with Finite b1 have "float_mul x' y = PosInf" by simp
      moreover from float_mul_closed [OF x y] n
      have "float_mul x y = PosInf \<or> (\<exists>c. float_mul x y = Finite c)" by auto
      ultimately show ?thesis by auto
    next
      case (Finite a')
      with x' have a': "a' = 0 \<or> 1 \<le> a'" by simp
      from le Finite x obtain a where xa: "x = Finite a" and a: "a = 0 \<or> 1 \<le> a"
        and aa: "a \<le> a'"
        by (cases x) auto
      have "a * b \<le> a' * b"
        using aa b1 by (intro mult_right_mono) simp_all
      with float_mul_nonneg(2) [OF a b] float_mul_nonneg(2) [OF a' b]
      have "round_double (a * b) \<le> round_double (a' * b)"
        by (intro round_double_mono)
      then show ?thesis
        using float_mul_nonneg(1) [OF a b] float_mul_nonneg(1) [OF a' b] xa Finite
          \<open>y = Finite b\<close>
        by auto
    qed (use x' in auto)
  qed
next
  case PosInf
  with n n' x x' have "float_mul x y = PosInf" "float_mul x' y = PosInf"
    by (auto split: if_splits)
  then show ?thesis by simp
qed (use y in auto)

lemma float_mul_mono_right:
  assumes "x = PosInf \<or> (\<exists>a. x = Finite a \<and> (a = 0 \<or> 1 \<le> a))"
    and "y = PosInf \<or> (\<exists>b. y = Finite b \<and> (b = 0 \<or> 1 \<le> b))"
    and "y' = PosInf \<or> (\<exists>b. y' = Finite b \<and> (b = 0 \<or> 1 \<le> b))"
    and "float_le y y'"
    and "float_mul x y \<noteq> NaN" and "float_mul x y' \<noteq> NaN"
  shows "float_le (float_mul x y) (float_mul x y')"
  using float_mul_mono_left [OF assms(2) assms(3) assms(1) assms(4)] assms(5,6)
  by (simp add: float_mul_commute [of x])

lemma float_of_int_nonneg:
  assumes "0 \<le> n" and "float_of_int n = Inr y"
  shows "\<exists>b. y = Finite b \<and> b = round_double (of_int n) \<and> (b = 0 \<or> 1 \<le> b)"
proof -
  have "(of_int n :: rat) = 0 \<or> 1 \<le> (of_int n :: rat)"
    using assms(1) by (cases "n = 0") simp_all
  then have "round_double (of_int n) = 0 \<or> 1 \<le> round_double (of_int n)"
    using round_double_ge1_ge1 [of "of_int n"] by (auto simp: round_double_zero)
  with assms(2) show ?thesis
    by (auto simp: float_of_int_def Let_def split: if_splits)
qed

lemma float_of_int_mono:
  assumes "0 \<le> n" and "n \<le> n'" and "float_of_int n = Inr y" and "float_of_int n' = Inr y'"
  shows "float_le y y'"
proof -
  from float_of_int_nonneg [OF assms(1,3)]
  have y: "y = Finite (round_double (of_int n))" by auto
  from assms(1,2) have "0 \<le> n'" by simp
  from float_of_int_nonneg [OF this assms(4)]
  have y': "y' = Finite (round_double (of_int n'))" by auto
  have w: "(of_int n :: rat) = 0 \<or> 1 \<le> (of_int n :: rat)"
    using assms(1) by (cases "n = 0") simp_all
  have w': "(of_int n' :: rat) = 0 \<or> 1 \<le> (of_int n' :: rat)"
    using \<open>0 \<le> n'\<close> by (cases "n' = 0") simp_all
  have "(of_int n :: rat) \<le> of_int n'"
    using assms(2) by simp
  with w w' have "round_double (of_int n) \<le> round_double (of_int n')"
    by (intro round_double_mono)
  with y y' show ?thesis by simp
qed

subsection \<open>The price calculator\<close>

lemma base_price_lookup:
  "dict_get base_prices (lower destination) 1000000 = spec_base_price destination"
  by (simp add: dict_get_def base_prices_def spec_base_price_def)

lemma package_multiplier_lookup:
  "dict_get package_multipliers (lower package_type) (Finite 1)
     = Finite (spec_package_multiplier package_type)"
  by (simp add: dict_get_def package_multipliers_def spec_package_multiplier_def)

text \<open>Base price times multiplier is an integer between 800000 and 10000000.\<close>

lemma unit_price_int:
  "\<exists>v. of_int (spec_base_price destination) * spec_package_multiplier package_type
          = (of_int v :: rat) \<and> 800000 \<le> v \<and> v \<le> 10000000"
proof -
  define B where "B = spec_base_price destination"
  define M where "M = spec_package_multiplier package_type"
  define k :: int where "k = (if M = 1 then 2 else if M = 3 / 2 then 3 else 4)"
  have b: "B = 1000000 \<or> B = 5000000 \<or> B = 800000"
    by (simp add: B_def spec_base_price_def)
  have m: "M = 1 \<or> M = 3 / 2 \<or> M = 2"
    by (simp add: M_def spec_package_multiplier_def)
  have "of_int B * M = (of_int (B * k div 2) :: rat) \<and> 800000 \<le> B * k div 2
          \<and> B * k div 2 \<le> 10000000"
    using b m by (auto simp: k_def)
  then show ?thesis
    unfolding B_def M_def by blast
qed

lemma int_times_float_unit_price:
  assumes "of_int (spec_base_price destination) * spec_package_multiplier package_type
             = (of_int v :: rat)" and "800000 \<le> v" and "v \<le> 10000000"
  shows "int_times_float (dict_get base_prices (lower destination) 1000000)
           (dict_get package_multipliers (lower package_type) (Finite 1))
         = Inr (Finite (of_int v))"
proof -
  have "\<bar>spec_base_price destination\<bar> \<le> 2 ^ 53"
    by (simp add: spec_base_price_def)
  then have b: "float_of_int (spec_base_price destination)
                  = Inr (Finite (of_int (spec_base_price destination)))"
    by (rule float_of_int_exact)
  have "\<bar>v\<bar> \<le> 2 ^ 53" using assms(2,3) by simp
  from float_mul_exact [OF this assms(1)] show ?thesis
    by (simp add: int_times_float_def base_price_lookup package_multiplier_lookup b bind_exn_def)
qed

lemma calculate_price_chain:
  assumes "of_int (spec_base_price destination) * spec_package_multiplier package_type
             = (of_int v :: rat)" and "800000 \<le> v" and "v \<le> 10000000"
  shows "calculate_price destination days package_type passengers
         = bind_exn (float_of_int days) (\<lambda>d.
           bind_exn (float_of_int passengers) (\<lambda>n.
           Inr (float_mul (float_mul (Finite (of_int v)) d) n)))"
  by (simp add: calculate_price_def Let_def int_times_float_unit_price [OF assms]
      float_times_int_def bind_exn_def split: sum.splits)

lemma calculate_price_exact:
  assumes "0 < days" and "0 < passengers"
    and "of_int (spec_base_price destination) * spec_package_multiplier package_type
           * of_int days * of_int passengers \<le> (2 ^ 53 :: rat)"
  shows "calculate_price destination days package_type passengers
         = Inr (Finite (of_int (spec_base_price destination)
                          * spec_package_multiplier package_type
                          * of_int days * of_int passengers))"
proof -
  obtain v where u: "of_int (spec_base_price destination) * spec_package_multiplier package_type
             = (of_int v :: rat)" and v: "800000 \<le> v" "v \<le> 10000000"
    using unit_price_int by blast
  from assms(3) have "(of_int (v * days * passengers) :: rat) \<le> of_int (2 ^ 53)"
    by (simp add: u)
  then have bound: "v * days * passengers \<le> 2 ^ 53"
    by (simp only: of_int_le_iff)
  have vd: "0 < v * days" using v(1) assms(1) by simp
  have "v * days * 1 \<le> v * days * passengers"
    using vd assms(2) by (intro mult_left_mono) simp_all
  with bound have b2: "v * days \<le> 2 ^ 53" by simp
  have "1 * days \<le> v * days"
    using v(1) assms(1) by (intro mult_right_mono) simp_all
  with b2 have b3: "days \<le> 2 ^ 53" by simp
  have "1 * passengers \<le> (v * days) * passengers"
    using vd assms(2) by (intro mult_right_mono) simp_all
  with bound have b4: "passengers \<le> 2 ^ 53" by simp
  have d: "float_of_int days = Inr (Finite (of_int days))"
    using b3 assms(1) by (intro float_of_int_exact) simp
  have n: "float_of_int passengers = Inr (Finite (of_int passengers))"
    using b4 assms(2) by (intro float_of_int_exact) simp
  have m1: "float_mul (Finite (of_int v)) (Finite (of_int days)) = Finite (of_int (v * days))"
    using b2 vd by (intro float_mul_exact) simp_all
  have m2: "float_mul (Finite (of_int (v * days))) (Finite (of_int passengers))
              = Finite (of_int (v * days * passengers))"
    using bound vd assms(2) by (intro float_mul_exact) simp_all
  have "calculate_price destination days package_type passengers
          = Inr (float_mul (float_mul (Finite (of_int v)) (Finite (of_int days)))
                   (Finite (of_int passengers)))"
    by (simp add: calculate_price_chain [OF u v] d n bind_exn_def del: float_mul.simps)
  also have "\<dots> = Inr (Finite (of_int (v * days * passengers)))"
    by (simp only: m1 m2)
  also have "(of_int (v * days * passengers) :: rat)
               = of_int (spec_base_price destination) * spec_package_multiplier package_type
                   * of_int days * of_int passengers"
    by (simp add: u)
  finally show ?thesis .
qed

lemma lower_examples:
  "lower ''moon'' = ''moon''" "lower ''economy'' = ''economy''" "lower ''mars'' = ''mars''"
  "lower ''Mars'' = ''mars''" "lower ''BUSINESS'' = ''business''"
  "lower ''business'' = ''business''" "lower ''Economy'' = ''economy''"
  "lower ''first'' = ''first''"
  by (simp_all add: lower_def lower_char_def ascii_uppercase_def ascii_lowercase_def)

lemma example_prices:
  "calculate_price ''mars'' 3 ''business'' 2 = Inr (Finite 45000000)"
  "calculate_price ''mars'' 5 ''business'' 2 = Inr (Finite 75000000)"
  "calculate_price ''mars'' 3 ''business'' 4 = Inr (Finite 90000000)"
  "calculate_price ''mars'' 3 ''Economy'' 2 = Inr (Finite 30000000)"
  "calculate_price ''mars'' 3 ''first'' 2 = Inr (Finite 60000000)"
  using calculate_price_exact [of 3 2 "''mars''" "''business''"]
    calculate_price_exact [of 5 2 "''mars''" "''business''"]
    calculate_price_exact [of 3 4 "''mars''" "''business''"]
    calculate_price_exact [of 3 2 "''mars''" "''Economy''"]
    calculate_price_exact [of 3 2 "''mars''" "''first''"]
  by (simp_all add: spec_base_price_def spec_package_multiplier_def lower_examples)

lemma round_example: "round_double 576460752305000000 = 576460752304999936"
  by code_simp

text \<open>
  C1, as the claim states it, fails. For the moon, economy, one passenger and
  576460752305 days the exact product is 576460752305000000, above \<open>2 ^ 53\<close>; it lies
  halfway between two doubles and the code returns the even one, 576460752304999936.
  For \<open>2 ^ 1024\<close> days the conversion of the integer raises OverflowError and nothing is
  returned.
\<close>

theorem calculate_price_counterexample:
  "calculate_price ''moon'' 576460752305 ''economy'' 1 = Inr (Finite 576460752304999936)
   \<and> rat_of_int (spec_base_price ''moon'') * spec_package_multiplier ''economy''
       * rat_of_int 576460752305 * rat_of_int 1 = 576460752305000000
   \<and> calculate_price ''moon'' (2 ^ 1024) ''economy'' 1
       = Inl (PyError ''OverflowError'' ''int too large to convert to float'')"
proof -
  have low: "lower ''moon'' = ''moon''" "lower ''economy'' = ''economy''"
    by (simp_all add: lower_def lower_char_def ascii_uppercase_def ascii_lowercase_def)
  have u: "of_int (spec_base_price ''moon'') * spec_package_multiplier ''economy''
             = (of_int 1000000 :: rat)"
    by (simp add: spec_base_price_def spec_package_multiplier_def low)
  note chain = calculate_price_chain [OF u, simplified]
  have d: "float_of_int 576460752305 = Inr (Finite 576460752305)"
    using float_of_int_exact [of 576460752305] by simp
  have one: "float_of_int 1 = Inr (Finite 1)"
    using float_of_int_exact [of 1] by simp
  have m1: "float_mul (Finite 1000000) (Finite 576460752305) = Finite 576460752304999936"
    by (simp add: round_example Let_def)
  have "round_double (of_int (4503599627382812 * 2 ^ 7)) = of_int (4503599627382812 * 2 ^ 7)"
    by (rule round_double_exact) simp_all
  then have r2: "round_double 576460752304999936 = 576460752304999936"
    by simp
  have m2: "float_mul (Finite 576460752304999936) (Finite 1) = Finite 576460752304999936"
    by (simp add: r2 Let_def)
  have a: "calculate_price ''moon'' 576460752305 ''economy'' 1
             = Inr (Finite 576460752304999936)"
    by (simp add: chain d one m1 m2 bind_exn_def del: float_mul.simps)
  have "round_double (of_int (1 * 2 ^ 1024)) = of_int (1 * 2 ^ 1024)"
    by (rule round_double_exact) simp_all
  then have "round_double (2 ^ 1024) = 2 ^ 1024"
    by simp
  then have "float_of_int (2 ^ 1024)
               = Inl (PyError ''OverflowError'' ''int too large to convert to float'')"
    by (simp add: float_of_int_def Let_def)
  then have c: "calculate_price ''moon'' (2 ^ 1024) ''economy'' 1
       = Inl (PyError ''OverflowError'' ''int too large to convert to float'')"
    by (simp add: chain bind_exn_def)
  have b: "rat_of_int (spec_base_price ''moon'') * spec_package_multiplier ''economy''
       * rat_of_int 576460752305 * rat_of_int 1 = 576460752305000000"
    by (simp add: spec_base_price_def spec_package_multiplier_def low)
  from a b c show ?thesis by blast
qed

text \<open>
  C1, amended. For every destination and package type and positive integers days and
  passengers whose price is at most \<open>2 ^ 53\<close>, \<open>calculate_price\<close> returns the float that
  is exactly base price times multiplier times days times passengers, the base price
  being 1000000 for moon, 5000000 for mars, 800000 for space_station and 1000000 for
  any other destination, the multiplier 1.0 for economy, 1.5 for business, 2.0 for
  first and 1.0 for any other package type, both looked up on the lowered key.
\<close>

theorem calculate_price_formula:
  assumes "0 < days" and "0 < passengers"
    and "of_int (spec_base_price destination) * spec_package_multiplier package_type
           * of_int days * of_int passengers \<le> (2 ^ 53 :: rat)"
  shows "calculate_price destination days package_type passengers
         = Inr (Finite (of_int (spec_base_price destination)
                          * spec_package_multiplier package_type
                          * of_int days * of_int passengers))"
  using assms by (rule calculate_price_exact)

theorem calculate_price_formula_witness:
  "(0::int) < 3 \<and> (0::int) < 2
   \<and> rat_of_int (spec_base_price ''Mars'') * spec_package_multiplier ''BUSINESS''
       * rat_of_int 3 * rat_of_int 2 \<le> 2 ^ 53
   \<and> calculate_price ''Mars'' 3 ''BUSINESS'' 2 = Inr (Finite 45000000)"
  using calculate_price_formula [of 3 2 "''Mars''" "''BUSINESS''"]
  by (simp add: spec_base_price_def spec_package_multiplier_def lower_examples)

lemma calculate_price_Inr:
  assumes "of_int (spec_base_price destination) * spec_package_multiplier package_type
             = (of_int v :: rat)" and "800000 \<le> v" and "v \<le> 10000000"
    and "calculate_price destination days package_type passengers = Inr x"
  obtains d n where "float_of_int days = Inr d" and "float_of_int passengers = Inr n"
    and "x = float_mul (float_mul (Finite (of_int v)) d) n"
  using assms(4) unfolding calculate_price_chain [OF assms(1-3)]
  by (auto simp: bind_exn_def split: sum.splits)

lemma tier_rank_multiplier:
  assumes "tier_rank pkg = Some i" and "tier_rank pkg' = Some j" and "i \<le> j"
  shows "spec_package_multiplier pkg \<le> spec_package_multiplier pkg'"
  using assms
  by (auto simp: tier_rank_def spec_package_multiplier_def split: if_splits)

lemma unit_price_float:
  assumes "800000 \<le> v"
  shows "Finite (of_int v) = PosInf \<or> (\<exists>a. Finite (of_int v) = Finite a \<and> (a = 0 \<or> 1 \<le> a))"
  using assms by simp

lemma float_of_int_nonneg_float:
  assumes "0 \<le> n" and "float_of_int n = Inr y"
  shows "y = PosInf \<or> (\<exists>b. y = Finite b \<and> (b = 0 \<or> 1 \<le> b))"
  using float_of_int_nonneg [OF assms] by blast

lemma float_mul_finite_closed:
  assumes "1 \<le> a" and "y = PosInf \<or> (\<exists>b. y = Finite b \<and> (b = 0 \<or> 1 \<le> b))"
    and "\<exists>b. y = Finite b"
  shows "float_mul (Finite a) y \<noteq> NaN"
    and "float_mul (Finite a) y = PosInf
           \<or> (\<exists>c. float_mul (Finite a) y = Finite c \<and> (c = 0 \<or> 1 \<le> c))"
proof -
  from assms(2,3) obtain b where y: "y = Finite b" and b: "b = 0 \<or> 1 \<le> b" by auto
  have a: "a = 0 \<or> 1 \<le> a" using assms(1) by simp
  from float_mul_nonneg [OF a b] y
  show "float_mul (Finite a) y \<noteq> NaN"
    and "float_mul (Finite a) y = PosInf
           \<or> (\<exists>c. float_mul (Finite a) y = Finite c \<and> (c = 0 \<or> 1 \<le> c))"
    by auto
qed

lemma price_mono_days:
  assumes v: "800000 \<le> v"
    and "0 \<le> days" and "days \<le> days'" and "0 \<le> passengers"
    and d: "float_of_int days = Inr d" and d': "float_of_int days' = Inr d'"
    and n: "float_of_int passengers = Inr n"
    and nx: "float_mul (float_mul (Finite (of_int v)) d) n \<noteq> NaN"
    and ny: "float_mul (float_mul (Finite (of_int v)) d') n \<noteq> NaN"
  shows "float_le (float_mul (float_mul (Finite (of_int v)) d) n)
           (float_mul (float_mul (Finite (of_int v)) d') n)"
proof -
  have v1: "1 \<le> (of_int v :: rat)" using v by simp
  have days': "0 \<le> days'" using assms(2,3) by simp
  note fd = float_of_int_nonneg_float [OF assms(2) d]
  note fd' = float_of_int_nonneg_float [OF days' d']
  note fn = float_of_int_nonneg_float [OF assms(4) n]
  from float_of_int_nonneg [OF assms(2) d] have dfin: "\<exists>b. d = Finite b" by blast
  from float_of_int_nonneg [OF days' d'] have dfin': "\<exists>b. d' = Finite b" by blast
  have le: "float_le d d'"
    using assms(2,3) d d' by (rule float_of_int_mono)
  note p = float_mul_finite_closed [OF v1 fd dfin]
  note p' = float_mul_finite_closed [OF v1 fd' dfin']
  have inner: "float_le (float_mul (Finite (of_int v)) d) (float_mul (Finite (of_int v)) d')"
    using unit_price_float [OF v] fd fd' le p(1) p'(1) by (rule float_mul_mono_right)
  from p(2) p'(2) fn inner nx ny show ?thesis
    by (rule float_mul_mono_left)
qed

lemma price_mono_passengers:
  assumes v: "800000 \<le> v"
    and "0 \<le> days" and "0 \<le> passengers" and "passengers \<le> passengers'"
    and d: "float_of_int days = Inr d"
    and n: "float_of_int passengers = Inr n" and n': "float_of_int passengers' = Inr n'"
    and nx: "float_mul (float_mul (Finite (of_int v)) d) n \<noteq> NaN"
    and ny: "float_mul (float_mul (Finite (of_int v)) d) n' \<noteq> NaN"
  shows "float_le (float_mul (float_mul (Finite (of_int v)) d) n)
           (float_mul (float_mul (Finite (of_int v)) d) n')"
proof -
  have v1: "1 \<le> (of_int v :: rat)" using v by simp
  have pass': "0 \<le> passengers'" using assms(3,4) by simp
  note fd = float_of_int_nonneg_float [OF assms(2) d]
  note fn = float_of_int_nonneg_float [OF assms(3) n]
  note fn' = float_of_int_nonneg_float [OF pass' n']
  from float_of_int_nonneg [OF assms(2) d] have dfin: "\<exists>b. d = Finite b" by blast
  have le: "float_le n n'"
    using assms(3,4) n n' by (rule float_of_int_mono)
  note p = float_mul_finite_closed [OF v1 fd dfin]
  from p(2) fn fn' le nx ny show ?thesis
    by (rule float_mul_mono_right)
qed

lemma price_mono_unit:
  assumes v: "800000 \<le> v" and vv: "v \<le> v'"
    and "0 \<le> days" and "0 \<le> passengers"
    and d: "float_of_int days = Inr d"
    and n: "float_of_int passengers = Inr n"
    and nx: "float_mul (float_mul (Finite (of_int v)) d) n \<noteq> NaN"
    and ny: "float_mul (float_mul (Finite (of_int v')) d) n \<noteq> NaN"
  shows "float_le (float_mul (float_mul (Finite (of_int v)) d) n)
           (float_mul (float_mul (Finite (of_int v')) d) n)"
proof -
  have v': "800000 \<le> v'" using v vv by simp
  have v1: "1 \<le> (of_int v :: rat)" using v by simp
  have v1': "1 \<le> (of_int v' :: rat)" using v' by simp
  note fd = float_of_int_nonneg_float [OF assms(3) d]
  note fn = float_of_int_nonneg_float [OF assms(4) n]
  from float_of_int_nonneg [OF assms(3) d] have dfin: "\<exists>b. d = Finite b" by blast
  note p = float_mul_finite_closed [OF v1 fd dfin]
  note p' = float_mul_finite_closed [OF v1' fd dfin]
  have le: "float_le (Finite (of_int v)) (Finite (of_int v'))"
    using vv by simp
  have inner: "float_le (float_mul (Finite (of_int v)) d) (float_mul (Finite (of_int v')) d)"
    using unit_price_float [OF v] unit_price_float [OF v'] fd le p(1) p'(1)
    by (rule float_mul_mono_left)
  from p(2) p'(2) fn inner nx ny show ?thesis
    by (rule float_mul_mono_left)
qed

lemma float_of_int_pow2:
  assumes "k < 1024"
  shows "float_of_int (2 ^ k) = Inr (Finite (2 ^ k))"
proof -
  have "round_double (of_int (1 * 2 ^ k)) = of_int (1 * 2 ^ k)"
    by (rule round_double_exact) simp_all
  then have r: "round_double (2 ^ k) = 2 ^ k"
    by simp
  have "(2::rat) ^ k < 2 ^ 1024"
    using assms by (intro power_strict_increasing) simp_all
  then have "\<not> (2::rat) ^ 1024 \<le> \<bar>2 ^ k\<bar>"
    by simp
  then show ?thesis
    by (simp add: float_of_int_def Let_def r del: power_numeral)
qed

lemma float_mul_million_overflow:
  assumes "1010 \<le> k"
  shows "float_mul (Finite 1000000) (Finite (2 ^ k)) = PosInf"
proof -
  have "round_double (of_int (15625 * 2 ^ (k + 6))) = of_int (15625 * 2 ^ (k + 6))"
    by (rule round_double_exact) simp_all
  moreover have "(of_int (15625 * 2 ^ (k + 6)) :: rat) = 1000000 * 2 ^ k"
    by (simp add: power_add)
  ultimately have r: "round_double (1000000 * 2 ^ k) = 1000000 * 2 ^ k"
    by (simp only:)
  have "(2::rat) ^ 1024 = 2 ^ 14 * 2 ^ 1010"
    by (simp only: power_add [symmetric]) simp
  also have "\<dots> \<le> 1000000 * 2 ^ 1010"
    by (intro mult_right_mono) simp_all
  also have "\<dots> \<le> 1000000 * 2 ^ k"
    using assms by (intro mult_left_mono power_increasing) simp_all
  finally have "(2::rat) ^ 1024 \<le> 1000000 * 2 ^ k" .
  then show ?thesis
    by (simp add: r Let_def del: power_numeral)
qed

text \<open>
  C2, as the claim states it, fails. For the moon, economy and \<open>2 ^ 1010\<close> days the
  product with the days overflows to infinity; with no passenger the price is then
  infinity times zero, NaN, with one passenger it is infinity, and \<open>nan <= inf\<close> is
  false.
\<close>

theorem calculate_price_monotone_counterexample:
  "(0::int) \<le> 2 ^ 1010 \<and> (0::int) \<le> 0 \<and> (0::int) \<le> 1
   \<and> calculate_price ''moon'' (2 ^ 1010) ''economy'' 0 = Inr NaN
   \<and> calculate_price ''moon'' (2 ^ 1010) ''economy'' 1 = Inr PosInf
   \<and> \<not> float_le NaN PosInf"
proof -
  have u: "of_int (spec_base_price ''moon'') * spec_package_multiplier ''economy''
             = (of_int 1000000 :: rat)"
    by (simp add: spec_base_price_def spec_package_multiplier_def lower_examples)
  note chain = calculate_price_chain [OF u, simplified]
  have d: "float_of_int (2 ^ 1010) = Inr (Finite (2 ^ 1010))"
    by (rule float_of_int_pow2) simp
  have p: "float_mul (Finite 1000000) (Finite (2 ^ 1010)) = PosInf"
    by (rule float_mul_million_overflow) simp
  have zero: "float_of_int 0 = Inr (Finite 0)"
    using float_of_int_exact [of 0] by simp
  have one: "float_of_int 1 = Inr (Finite 1)"
    using float_of_int_exact [of 1] by simp
  have q: "float_mul PosInf (Finite 0) = NaN" "float_mul PosInf (Finite 1) = PosInf"
    by simp_all
  have a: "calculate_price ''moon'' (2 ^ 1010) ''economy'' 0 = Inr NaN"
    unfolding chain d zero bind_exn_def by (simp only: sum.case p q)
  have b: "calculate_price ''moon'' (2 ^ 1010) ''economy'' 1 = Inr PosInf"
    unfolding chain d one bind_exn_def by (simp only: sum.case p q)
  have "(0::int) \<le> 2 ^ 1010" by simp
  with a b show ?thesis by simp
qed

text \<open>
  C2, amended. For a fixed destination and non-negative days and passengers, the price
  is monotonically non-decreasing in days, in passengers and in the package tier
  (economy, business, first) whenever both prices compared are returned and neither is
  NaN. (A price is NaN when an intermediate product overflowed and the passengers are
  zero; no price is returned when an integer is beyond the float range.)
\<close>

theorem calculate_price_monotone:
  assumes "0 \<le> days" and "days \<le> days'"
    and "0 \<le> passengers" and "passengers \<le> passengers'"
    and "tier_rank pkg = Some i" and "tier_rank pkg' = Some j" and "i \<le> j"
  shows "(calculate_price destination days package_type passengers = Inr x1
          \<and> calculate_price destination days' package_type passengers = Inr y1
          \<and> x1 \<noteq> NaN \<and> y1 \<noteq> NaN \<longrightarrow> float_le x1 y1)
       \<and> (calculate_price destination days package_type passengers = Inr x2
          \<and> calculate_price destination days package_type passengers' = Inr y2
          \<and> x2 \<noteq> NaN \<and> y2 \<noteq> NaN \<longrightarrow> float_le x2 y2)
       \<and> (calculate_price destination days pkg passengers = Inr x3
          \<and> calculate_price destination days pkg' passengers = Inr y3
          \<and> x3 \<noteq> NaN \<and> y3 \<noteq> NaN \<longrightarrow> float_le x3 y3)"
proof (intro conjI impI)
  obtain v where u: "of_int (spec_base_price destination) * spec_package_multiplier package_type
             = (of_int v :: rat)" and v: "800000 \<le> v" "v \<le> 10000000"
    using unit_price_int by blast
  {
    assume a: "calculate_price destination days package_type passengers = Inr x1
          \<and> calculate_price destination days' package_type passengers = Inr y1
          \<and> x1 \<noteq> NaN \<and> y1 \<noteq> NaN"
    from a obtain d n where d: "float_of_int days = Inr d"
      and n: "float_of_int passengers = Inr n"
      and x: "x1 = float_mul (float_mul (Finite (of_int v)) d) n"
      using calculate_price_Inr [OF u v] by blast
    from a obtain d' n' where d': "float_of_int days' = Inr d'"
      and n': "float_of_int passengers = Inr n'"
      and y: "y1 = float_mul (float_mul (Finite (of_int v)) d') n'"
      using calculate_price_Inr [OF u v] by blast
    from n n' have nn: "n' = n" by simp
    show "float_le x1 y1"
      unfolding x y nn
      using v(1) assms(1,2,3) d d' n a [unfolded x y nn]
      by (intro price_mono_days) simp_all
  }
  {
    assume a: "calculate_price destination days package_type passengers = Inr x2
          \<and> calculate_price destination days package_type passengers' = Inr y2
          \<and> x2 \<noteq> NaN \<and> y2 \<noteq> NaN"
    from a obtain d n where d: "float_of_int days = Inr d"
      and n: "float_of_int passengers = Inr n"
      and x: "x2 = float_mul (float_mul (Finite (of_int v)) d) n"
      using calculate_price_Inr [OF u v] by blast
    from a obtain d' n' where d': "float_of_int days = Inr d'"
      and n': "float_of_int passengers' = Inr n'"
      and y: "y2 = float_mul (float_mul (Finite (of_int v)) d') n'"
      using calculate_price_Inr [OF u v] by blast
    from d d' have dd: "d' = d" by simp
    show "float_le x2 y2"
      unfolding x y dd
      using v(1) assms(1,3,4) d n n' a [unfolded x y dd]
      by (intro price_mono_passengers) simp_all
  }
  {
    assume a: "calculate_price destination days pkg passengers = Inr x3
          \<and> calculate_price destination days pkg' passengers = Inr y3
          \<and> x3 \<noteq> NaN \<and> y3 \<noteq> NaN"
    obtain w where uw: "of_int (spec_base_price destination) * spec_package_multiplier pkg
             = (of_int w :: rat)" and w: "800000 \<le> w" "w \<le> 10000000"
      using unit_price_int by blast
    obtain w' where uw': "of_int (spec_base_price destination) * spec_package_multiplier pkg'
             = (of_int w' :: rat)" and w': "800000 \<le> w'" "w' \<le> 10000000"
      using unit_price_int by blast
    have "spec_package_multiplier pkg \<le> spec_package_multiplier pkg'"
      using assms(5-7) by (rule tier_rank_multiplier)
    moreover have "0 \<le> (of_int (spec_base_price destination) :: rat)"
      by (simp add: spec_base_price_def)
    ultimately have "(of_int w :: rat) \<le> of_int w'"
      unfolding uw [symmetric] uw' [symmetric] by (rule mult_left_mono)
    then have ww: "w \<le> w'" by (simp only: of_int_le_iff)
    from a obtain d n where d: "float_of_int days = Inr d"
      and n: "float_of_int passengers = Inr n"
      and x: "x3 = float_mul (float_mul (Finite (of_int w)) d) n"
      using calculate_price_Inr [OF uw w] by blast
    from a obtain d' n' where d': "float_of_int days = Inr d'"
      and n': "float_of_int passengers = Inr n'"
      and y: "y3 = float_mul (float_mul (Finite (of_int w')) d') n'"
      using calculate_price_Inr [OF uw' w'] by blast
    from d d' n n' have dd: "d' = d" "n' = n" by simp_all
    show "float_le x3 y3"
      unfolding x y dd
      using w(1) ww assms(1,3) d n a [unfolded x y dd]
      by (intro price_mono_unit) simp_all
  }
qed

theorem calculate_price_monotone_witness:
  "(0::int) \<le> 3 \<and> (3::int) \<le> 5 \<and> (0::int) \<le> 2 \<and> (2::int) \<le> 4
   \<and> tier_rank ''Economy'' = Some 0 \<and> tier_rank ''first'' = Some 2 \<and> (0::nat) \<le> 2
   \<and> calculate_price ''mars'' 3 ''business'' 2 = Inr (Finite 45000000)
   \<and> calculate_price ''mars'' 5 ''business'' 2 = Inr (Finite 75000000)
   \<and> calculate_price ''mars'' 3 ''business'' 4 = Inr (Finite 90000000)
   \<and> calculate_price ''mars'' 3 ''Economy'' 2 = Inr (Finite 30000000)
   \<and> calculate_price ''mars'' 3 ''first'' 2 = Inr (Finite 60000000)
   \<and> float_le (Finite 45000000) (Finite 75000000)
   \<and> float_le (Finite 45000000) (Finite 90000000)
   \<and> float_le (Finite 30000000) (Finite 60000000)"
proof -
  have t: "tier_rank ''Economy'' = Some 0" "tier_rank ''first'' = Some 2"
    by (simp_all add: tier_rank_def lower_examples)
  have h: "(0::int) \<le> 3" "(3::int) \<le> 5" "(0::int) \<le> 2" "(2::int) \<le> 4" "(0::nat) \<le> 2"
    by simp_all
  have nn: "Finite 45000000 \<noteq> NaN" "Finite 75000000 \<noteq> NaN" "Finite 90000000 \<noteq> NaN"
    "Finite 30000000 \<noteq> NaN" "Finite 60000000 \<noteq> NaN"
    by simp_all
  from calculate_price_monotone [OF h(1-4) t h(5), of "''mars''" "''business''"
      "Finite 45000000" "Finite 75000000" "Finite 45000000" "Finite 90000000"
      "Finite 30000000" "Finite 60000000"]
    example_prices nn
  have "float_le (Finite 45000000) (Finite 75000000)
    \<and> float_le (Finite 45000000) (Finite 90000000)
    \<and> float_le (Finite 30000000) (Finite 60000000)"
    by blast
  with t h example_prices show ?thesis
    by blast
qed

subsection \<open>The health check\<close>

lemma check_missing_iff:
  "check_missing medical_history cs \<longleftrightarrow> (\<exists>c \<in> set cs. medical_history c = None)"
  by (induction cs) auto

lemma greater_than_numeric:
  "numeric v = Some x \<Longrightarrow> greater_than v n = Inr (n < x)"
  by (cases v) (auto split: if_splits)

lemma check_health_requirements_missing:
  assumes "\<exists>c \<in> set required_checks. medical_history c = None"
  shows "check_health_requirements medical_history = Inr False"
  using assms by (simp add: check_health_requirements_def check_missing_iff)

lemma check_health_requirements_readings:
  assumes present: "\<forall>c \<in> set required_checks. medical_history c \<noteq> None"
    and bp: "medical_history ''blood_pressure'' = Some (PDict bp)"
    and sys: "bp ''systolic'' = Some s" "numeric s = Some x"
    and dia: "bp ''diastolic'' = Some d" "numeric d = Some y"
  shows "check_health_requirements medical_history = Inr (\<not> (140 < x \<or> 90 < y))"
proof -
  have "\<not> check_missing medical_history required_checks"
    using present by (simp add: check_missing_iff)
  moreover have "greater_than s 140 = Inr (140 < x)"
    using greater_than_numeric [OF sys(2), of 140] by simp
  moreover have "greater_than d 90 = Inr (90 < y)"
    using greater_than_numeric [OF dia(2), of 90] by simp
  ultimately show ?thesis
    using bp sys(1) dia(1) by (simp add: check_health_requirements_def bind_exn_def)
qed

text \<open>
  C3, as the claim states it, fails: with all five required fields present and a
  diastolic reading of 95, above its threshold of 90, but no systolic reading, the check
  does not return False; the subscript \<open>["systolic"]\<close> raises KeyError.
\<close>

theorem check_health_requirements_counterexample:
  "check_missing history_without_systolic required_checks = False
   \<and> history_without_systolic ''blood_pressure'' = Some (PDict pressure_without_systolic)
   \<and> pressure_without_systolic ''diastolic'' = Some (PInt 95)
   \<and> greater_than (PInt 95) 90 = Inr True
   \<and> check_health_requirements history_without_systolic = Inl (PyError ''KeyError'' ''systolic'')"
  by (simp add: check_health_requirements_def history_without_systolic_def
      pressure_without_systolic_def required_checks_def bind_exn_def)

text \<open>
  C3, amended. \<open>check_health_requirements\<close> returns False whenever a required field
  (blood_pressure, heart_condition, bone_density, inner_ear, vision) is absent. When all
  five are present and blood_pressure is a dictionary holding numeric systolic and
  diastolic readings, it returns False if the systolic reading exceeds 140 or the
  diastolic reading exceeds 90, and True otherwise.
\<close>

theorem check_health_requirements_amended:
  "((\<exists>c \<in> set required_checks. medical_history c = None)
      \<longrightarrow> check_health_requirements medical_history = Inr False)
   \<and> ((\<forall>c \<in> set required_checks. medical_history c \<noteq> None)
        \<and> medical_history ''blood_pressure'' = Some (PDict bp)
        \<and> bp ''systolic'' = Some s \<and> numeric s = Some x
        \<and> bp ''diastolic'' = Some d \<and> numeric d = Some y
      \<longrightarrow> check_health_requirements medical_history = Inr (\<not> (140 < x \<or> 90 < y)))"
  using check_health_requirements_missing [of medical_history]
    check_health_requirements_readings [of medical_history bp s x d y]
  by blast

theorem check_health_requirements_amended_witness:
  "check_missing Map.empty required_checks = True
   \<and> check_health_requirements Map.empty = Inr False
   \<and> check_missing healthy_history required_checks = False
   \<and> healthy_history ''blood_pressure'' = Some (PDict healthy_pressure)
   \<and> healthy_pressure ''systolic'' = Some (PInt 120)
   \<and> healthy_pressure ''diastolic'' = Some (PInt 80)
   \<and> check_health_requirements healthy_history = Inr True"
proof -
  have a: "check_missing Map.empty required_checks = True"
    by (simp add: required_checks_def)
  have b: "check_missing healthy_history required_checks = False"
    by (simp add: required_checks_def healthy_history_def)
  have c: "healthy_history ''blood_pressure'' = Some (PDict healthy_pressure)"
    by (simp add: healthy_history_def)
  have d: "healthy_pressure ''systolic'' = Some (PInt 120)"
    "healthy_pressure ''diastolic'' = Some (PInt 80)"
    by (simp_all add: healthy_pressure_def)
  have e: "numeric (PInt 120) = Some 120" "numeric (PInt 80) = Some 80"
    by simp_all
  from a have a': "\<exists>c \<in> set required_checks. Map.empty c = (None :: pyval option)"
    by (simp add: check_missing_iff)
  from b have b': "\<forall>c \<in> set required_checks. healthy_history c \<noteq> None"
    by (simp add: check_missing_iff)
  from check_health_requirements_amended [of Map.empty healthy_pressure "PInt 120" 120
      "PInt 80" 80] a'
  have f: "check_health_requirements Map.empty = Inr False"
    by blast
  from check_health_requirements_amended [of healthy_history healthy_pressure "PInt 120" 120
      "PInt 80" 80] b' c d e
  have "check_health_requirements healthy_history = Inr (\<not> ((140::rat) < 120 \<or> (90::rat) < 80))"
    by blast
  then have g: "check_health_requirements healthy_history = Inr True"
    by simp
  from a f b c d g show ?thesis
    by blast
qed

subsection \<open>Space weather\<close>

lemma random_choice_range:
  assumes "seq \<noteq> []"
  shows "range (\<lambda>r. random_choice r seq) = Inr ` set seq"
proof
  show "range (\<lambda>r. random_choice r seq) \<subseteq> Inr ` set seq"
    using assms by (auto simp: random_choice_def)
next
  show "Inr ` set seq \<subseteq> range (\<lambda>r. random_choice r seq)"
  proof
    fix y :: "exn + 'a"
    assume "y \<in> Inr ` set seq"
    then obtain i where i: "i < length seq" and y: "y = Inr (seq ! i)"
      by (auto simp: in_set_conv_nth)
    have "random_choice i seq = y"
      using assms i y by (simp add: random_choice_def)
    then show "y \<in> range (\<lambda>r. random_choice r seq)"
      by (metis rangeI)
  qed
qed

lemma get_solar_activity_range:
  "range get_solar_activity = Inr ` {''low'', ''moderate'', ''high'', ''extreme''}"
proof -
  have "range get_solar_activity = Inr ` set activity_levels"
    unfolding get_solar_activity_def [abs_def]
    by (rule random_choice_range) (simp add: activity_levels_def)
  then show ?thesis
    by (simp add: activity_levels_def)
qed

lemma get_radiation_level_range:
  "range get_radiation_level = Inr ` {''low'', ''moderate'', ''high'', ''extreme''}"
proof -
  have "range get_radiation_level = Inr ` set activity_levels"
    unfolding get_radiation_level_def [abs_def]
    by (rule random_choice_range) (simp add: activity_levels_def)
  then show ?thesis
    by (simp add: activity_levels_def)
qed

lemma get_meteoroid_risk_range:
  "range get_meteoroid_risk
     = Inr ` {''minimal'', ''low'', ''moderate'', ''high'', ''severe''}"
proof -
  have "range get_meteoroid_risk = Inr ` set risk_levels"
    unfolding get_meteoroid_risk_def [abs_def]
    by (rule random_choice_range) (simp add: risk_levels_def)
  then show ?thesis
    by (simp add: risk_levels_def)
qed

text \<open>
  C7, as the claim states it, fails for \<open>get_meteoroid_risk\<close>: the draws 0 to 4 give
  five different strings, not four.
\<close>

theorem get_meteoroid_risk_counterexample:
  "get_meteoroid_risk 0 = Inr ''minimal''
   \<and> get_meteoroid_risk 1 = Inr ''low''
   \<and> get_meteoroid_risk 2 = Inr ''moderate''
   \<and> get_meteoroid_risk 3 = Inr ''high''
   \<and> get_meteoroid_risk 4 = Inr ''severe''
   \<and> distinct [''minimal'', ''low'', ''moderate'', ''high'', ''severe'']"
  by (simp add: get_meteoroid_risk_def random_choice_def risk_levels_def)

text \<open>
  C7, amended. \<open>monitor_space_weather\<close> always returns the same hardcoded record (solar
  activity moderate, radiation level normal, meteoroid risk low, and the fixed
  recommendation). \<open>get_solar_activity\<close> and \<open>get_radiation_level\<close> return, over all
  draws, exactly the four strings low, moderate, high, extreme; \<open>get_meteoroid_risk\<close>
  returns exactly the five strings minimal, low, moderate, high, severe.
\<close>

theorem space_weather_sensors:
  "solar_activity monitor_space_weather = ''moderate''
   \<and> radiation_level monitor_space_weather = ''normal''
   \<and> meteoroid_risk monitor_space_weather = ''low''
   \<and> recommendation monitor_space_weather = stable_weather_text
   \<and> range get_solar_activity = Inr ` {''low'', ''moderate'', ''high'', ''extreme''}
   \<and> range get_radiation_level = Inr ` {''low'', ''moderate'', ''high'', ''extreme''}
   \<and> range get_meteoroid_risk
       = Inr ` {''minimal'', ''low'', ''moderate'', ''high'', ''severe''}
   \<and> card (range get_solar_activity) = 4
   \<and> card (range get_radiation_level) = 4
   \<and> card (range get_meteoroid_risk) = 5"
proof -
  have inj: "\<And>A :: string set. card ((Inr :: string \<Rightarrow> exn + string) ` A) = card A"
    by (rule card_image) simp
  have four: "card {''low'', ''moderate'', ''high'', ''extreme''} = 4"
    by simp
  have five: "card {''minimal'', ''low'', ''moderate'', ''high'', ''severe''} = 5"
    by simp
  show ?thesis
    unfolding get_solar_activity_range get_radiation_level_range get_meteoroid_risk_range
      inj four five
    by (simp add: monitor_space_weather_def)
qed

theorem space_weather_sensors_witness:
  "get_solar_activity 7 \<in> Inr ` {''low'', ''moderate'', ''high'', ''extreme''}
   \<and> get_meteoroid_risk 9 \<in> Inr ` {''minimal'', ''low'', ''moderate'', ''high'', ''severe''}"
proof -
  have "get_solar_activity 7 \<in> range get_solar_activity"
    and "get_meteoroid_risk 9 \<in> range get_meteoroid_risk"
    by (rule rangeI)+
  then show ?thesis
    using space_weather_sensors by simp
qed

lemma recommendation_texts_differ:
  "postpone_text \<noteq> stable_text" "postpone_text \<noteq> caution_text" "caution_text \<noteq> stable_text"
  by (simp_all add: postpone_text_def stable_text_def caution_text_def)

text \<open>
  C9. \<open>get_weather_recommendation\<close> recommends postponing whenever the meteoroid risk
  is high or severe or the solar activity or the radiation level is high. Yet for solar
  activity extreme, radiation level low and meteoroid risk minimal, values that the
  tool's own sensors produce, it returns the recommendation that the weather is stable
  and suits travel, although extreme is the last and most severe activity level.
\<close>

theorem get_weather_recommendation_extreme:
  "(meteoroid = ''high'' \<or> meteoroid = ''severe'' \<or> solar = ''high'' \<or> radiation = ''high''
      \<longrightarrow> get_weather_recommendation solar radiation meteoroid = postpone_text)
   \<and> get_weather_recommendation ''extreme'' ''low'' ''minimal'' = stable_text
   \<and> stable_text \<noteq> postpone_text
   \<and> last activity_levels = ''extreme''
   \<and> get_solar_activity 3 = Inr ''extreme''
   \<and> get_radiation_level 0 = Inr ''low''
   \<and> get_meteoroid_risk 0 = Inr ''minimal''
   \<and> bind_exn (get_full_weather_report now 3 0 0) (\<lambda>report. Inr (map_of report ''recommendation''))
       = Inr (Some (PStr stable_text))"
proof -
  have sensors: "get_solar_activity 3 = Inr ''extreme''" "get_radiation_level 0 = Inr ''low''"
    "get_meteoroid_risk 0 = Inr ''minimal''"
    by (simp_all add: get_solar_activity_def get_radiation_level_def get_meteoroid_risk_def
        random_choice_def activity_levels_def risk_levels_def)
  have stable: "get_weather_recommendation ''extreme'' ''low'' ''minimal'' = stable_text"
    by (simp add: get_weather_recommendation_def)
  have report: "bind_exn (get_full_weather_report now 3 0 0)
                  (\<lambda>report. Inr (map_of report ''recommendation''))
                = Inr (Some (PStr stable_text))"
    by (simp add: get_full_weather_report_def sensors bind_exn_def stable)
  have postpone: "meteoroid = ''high'' \<or> meteoroid = ''severe'' \<or> solar = ''high''
      \<or> radiation = ''high''
      \<longrightarrow> get_weather_recommendation solar radiation meteoroid = postpone_text"
    by (auto simp: get_weather_recommendation_def)
  have "last activity_levels = ''extreme''"
    by (simp add: activity_levels_def)
  then show ?thesis
    using sensors stable report postpone recommendation_texts_differ(1) by simp
qed

theorem get_weather_recommendation_extreme_witness:
  "(''severe'' = ''high'' \<or> ''severe'' = ''severe'' \<or> ''low'' = ''high'' \<or> ''extreme'' = ''high'')
   \<and> get_weather_recommendation ''low'' ''extreme'' ''severe'' = postpone_text"
  using get_weather_recommendation_extreme [of "''severe''" "''low''" "''extreme''" "''''"]
  by simp

subsection \<open>The training schedule\<close>

lemma duration_days_positive: "0 < duration_days t"
  by (cases t) simp_all

lemma length_append_modules: "length (append_modules c ts) = length ts"
  by (induction ts arbitrary: c) simp_all

lemma append_modules_consecutive:
  "Suc i < length ts \<Longrightarrow>
     module_start_date (append_modules c ts ! Suc i)
       = module_end_date (append_modules c ts ! i) + 1"
proof (induction ts arbitrary: c i)
  case Nil
  then show ?case by simp
next
  case (Cons t ts)
  show ?case
  proof (cases i)
    case 0
    with Cons.prems obtain u us where "ts = u # us"
      by (cases ts) auto
    with 0 show ?thesis by simp
  next
    case (Suc k)
    with Cons.prems have "Suc k < length ts" by simp
    from Cons.IH [OF this] Suc show ?thesis by simp
  qed
qed

lemma append_modules_end_bound:
  "m \<in> set (append_modules c ts) \<Longrightarrow>
     module_end_date m \<le> c + sum_list (map duration_days ts) + int (length ts) - 1"
proof (induction ts arbitrary: c)
  case Nil
  then show ?case by simp
next
  case (Cons t ts)
  have nonneg: "0 \<le> sum_list (map duration_days ts)"
    by (rule sum_list_nonneg) (auto simp: less_imp_le [OF duration_days_positive])
  from Cons.prems consider
      "m = \<lparr>module_type = type_value t, module_start_date = c,
            module_end_date = c + duration_days t,
            module_duration_days = duration_days t\<rparr>"
    | "m \<in> set (append_modules (c + (duration_days t + 1)) ts)"
    by auto
  then show ?case
  proof cases
    case 1
    then show ?thesis using nonneg by simp
  next
    case 2
    from Cons.IH [OF this] show ?thesis by simp
  qed
qed

lemma training_modules_create:
  "training_modules (create_training_schedule name departure ts)
     = append_modules (departure - (sum_list (map duration_days ts) + 14)) ts"
  by (simp add: create_training_schedule_def Let_def)

lemma create_training_schedule_upto_eight:
  assumes "length ts \<le> 8"
    and "m \<in> set (training_modules (create_training_schedule name departure ts))"
  shows "module_end_date m \<le> departure - 7"
proof -
  from assms(2)
  have "m \<in> set (append_modules (departure - (sum_list (map duration_days ts) + 14)) ts)"
    by (simp add: training_modules_create)
  from append_modules_end_bound [OF this] assms(1) show ?thesis
    by simp
qed

lemma create_training_schedule_consecutive:
  assumes "Suc i < length ts"
  shows "module_start_date (training_modules (create_training_schedule name departure ts) ! Suc i)
           = module_end_date (training_modules (create_training_schedule name departure ts) ! i)
             + 1"
  using append_modules_consecutive [OF assms]
  by (simp add: training_modules_create)

text \<open>
  C10 at nine modules. A schedule for nine communication trainings and a departure on
  day 100 declares its end on day 93, seven days before departure, but its ninth module
  starts on day 93 and ends on day 94, six days before departure. The gaps of one day
  between modules are not counted when the start date is computed.
\<close>

theorem create_training_schedule_nine_modules:
  "end_date (create_training_schedule ''trainee'' 100
       [COMMUNICATION, COMMUNICATION, COMMUNICATION, COMMUNICATION, COMMUNICATION,
        COMMUNICATION, COMMUNICATION, COMMUNICATION, COMMUNICATION]) = 93
   \<and> module_start_date (last (training_modules (create_training_schedule ''trainee'' 100
       [COMMUNICATION, COMMUNICATION, COMMUNICATION, COMMUNICATION, COMMUNICATION,
        COMMUNICATION, COMMUNICATION, COMMUNICATION, COMMUNICATION]))) = 93
   \<and> module_end_date (last (training_modules (create_training_schedule ''trainee'' 100
       [COMMUNICATION, COMMUNICATION, COMMUNICATION, COMMUNICATION, COMMUNICATION,
        COMMUNICATION, COMMUNICATION, COMMUNICATION, COMMUNICATION]))) = 94"
  by (simp add: create_training_schedule_def Let_def)

subsection \<open>The alert channels\<close>

lemma try_except_Exception_cases:
  "try_except_Exception body (\<lambda>e. Inr (h e)) =
     (case body of Inl e \<Rightarrow> Inr (h e) | Inr x \<Rightarrow> Inr x)"
  by (simp add: try_except_Exception_def)

lemma send_email_alert_result:
  "send_email_alert w self subject message recipients =
     (case smtp_dialogue w (SmtpMail (smtp_server self) (smtp_port self) (smtp_username self)
              (smtp_password self) (from_address self) recipients subject message) of
        Inr u \<Rightarrow> Inr (True, [LogInfo ''email'' subject])
      | Inl e \<Rightarrow> Inr (False, [LogError ''email'' (str_exn e)]))"
  by (simp add: send_email_alert_def try_except_Exception_def bind_exn_def split: sum.splits)

lemma send_slack_alert_result:
  "send_slack_alert w self title message severity =
     (case post_and_check w (slack_webhook self)
             (SlackPayload (dict_get severity_config (lower severity) ''#808080'') title message) of
        Inr u \<Rightarrow> Inr (True, [LogInfo ''slack'' title])
      | Inl e \<Rightarrow> Inr (False, [LogError ''slack'' (str_exn e)]))"
  by (simp add: send_slack_alert_def try_except_Exception_def bind_exn_def Let_def
      split: sum.splits)

lemma send_line_alert_result:
  "send_line_alert w self message =
     (case post_and_check w (Some line_notify_url) (LinePayload (line_token self) message) of
        Inr u \<Rightarrow> Inr (True, [LogInfo ''line'' ''''])
      | Inl e \<Rightarrow> Inr (False, [LogError ''line'' (str_exn e)]))"
  by (simp add: send_line_alert_def try_except_Exception_def bind_exn_def split: sum.splits)

lemma send_discord_alert_result:
  "send_discord_alert w self title message color =
     (case post_and_check w (discord_webhook self) (DiscordPayload title message color) of
        Inr u \<Rightarrow> Inr (True, [LogInfo ''discord'' title])
      | Inl e \<Rightarrow> Inr (False, [LogError ''discord'' (str_exn e)]))"
  by (simp add: send_discord_alert_def try_except_Exception_def bind_exn_def split: sum.splits)

lemma post_and_check_succeeds:
  "post_and_check w url body = Inr () \<longleftrightarrow>
     (\<exists>u status. url = Some u \<and> requests_post w u body = Inr status
        \<and> \<not> (400 \<le> status \<and> status < 600))"
  by (auto simp: post_and_check_def post_def raise_for_status_def bind_exn_def
      split: option.splits sum.splits if_splits)

lemma returned_send_email_alert:
  "\<exists>ok. returned (send_email_alert w self subject message recipients) = Some ok"
  by (simp add: send_email_alert_result returned_def split: sum.splits)

lemma returned_send_slack_alert:
  "\<exists>ok. returned (send_slack_alert w self title message severity) = Some ok"
  by (simp add: send_slack_alert_result returned_def split: sum.splits)

lemma returned_send_line_alert:
  "\<exists>ok. returned (send_line_alert w self message) = Some ok"
  by (simp add: send_line_alert_result returned_def split: sum.splits)

lemma returned_send_discord_alert:
  "\<exists>ok. returned (send_discord_alert w self title message color) = Some ok"
  by (simp add: send_discord_alert_result returned_def split: sum.splits)

lemma store_result_returned:
  assumes "returned sent = Some ok"
  shows "\<exists>logged. store_result channel sent (results, lg)
           = Inr (results(channel \<mapsto> ok), lg @ logged)"
  using assms
  by (auto simp: store_result_def returned_def bind_exn_def split: sum.splits)

text \<open>
  C5. Each of the four send methods returns True when its outbound call succeeds, and
  for any exception of the call it logs the exception and returns False; none of them
  raises.
\<close>

theorem send_methods_never_raise:
  "(\<exists>ok. returned (send_email_alert w self subject message recipients) = Some ok)
   \<and> (\<exists>ok. returned (send_slack_alert w self title message severity) = Some ok)
   \<and> (\<exists>ok. returned (send_line_alert w self message) = Some ok)
   \<and> (\<exists>ok. returned (send_discord_alert w self title message color) = Some ok)
   \<and> (smtp_dialogue w (SmtpMail (smtp_server self) (smtp_port self) (smtp_username self)
          (smtp_password self) (from_address self) recipients subject message) = Inr ()
        \<longrightarrow> send_email_alert w self subject message recipients
              = Inr (True, [LogInfo ''email'' subject]))
   \<and> (\<forall>e. smtp_dialogue w (SmtpMail (smtp_server self) (smtp_port self) (smtp_username self)
          (smtp_password self) (from_address self) recipients subject message) = Inl e
        \<longrightarrow> send_email_alert w self subject message recipients
              = Inr (False, [LogError ''email'' (str_exn e)]))
   \<and> (post_and_check w (slack_webhook self)
          (SlackPayload (dict_get severity_config (lower severity) ''#808080'') title message)
          = Inr ()
        \<longrightarrow> send_slack_alert w self title message severity
              = Inr (True, [LogInfo ''slack'' title]))
   \<and> (\<forall>e. post_and_check w (slack_webhook self)
          (SlackPayload (dict_get severity_config (lower severity) ''#808080'') title message)
          = Inl e
        \<longrightarrow> send_slack_alert w self title message severity
              = Inr (False, [LogError ''slack'' (str_exn e)]))
   \<and> (post_and_check w (Some line_notify_url) (LinePayload (line_token self) message) = Inr ()
        \<longrightarrow> send_line_alert w self message = Inr (True, [LogInfo ''line'' '''']))
   \<and> (\<forall>e. post_and_check w (Some line_notify_url) (LinePayload (line_token self) message)
          = Inl e
        \<longrightarrow> send_line_alert w self message = Inr (False, [LogError ''line'' (str_exn e)]))
   \<and> (post_and_check w (discord_webhook self) (DiscordPayload title message color) = Inr ()
        \<longrightarrow> send_discord_alert w self title message color
              = Inr (True, [LogInfo ''discord'' title]))
   \<and> (\<forall>e. post_and_check w (discord_webhook self) (DiscordPayload title message color) = Inl e
        \<longrightarrow> send_discord_alert w self title message color
              = Inr (False, [LogError ''discord'' (str_exn e)]))"
  using returned_send_email_alert [of w self subject message recipients]
    returned_send_slack_alert [of w self title message severity]
    returned_send_line_alert [of w self message]
    returned_send_discord_alert [of w self title message color]
  by (simp add: send_email_alert_result send_slack_alert_result send_line_alert_result
      send_discord_alert_result)

theorem send_methods_never_raise_witness:
  "smtp_dialogue example_outside
       (SmtpMail (smtp_server example_notifier) (smtp_port example_notifier)
          (smtp_username example_notifier) (smtp_password example_notifier)
          (from_address example_notifier) [''ops@example.org''] ''CPU'' ''load is high'')
     = Inl (PyError ''SMTPAuthenticationError'' ''refused'')
   \<and> send_email_alert example_outside example_notifier ''CPU'' ''load is high''
         [''ops@example.org'']
       = Inr (False, [LogError ''email'' (str_exn (PyError ''SMTPAuthenticationError'' ''refused''))])
   \<and> post_and_check example_outside (slack_webhook example_notifier)
         (SlackPayload (dict_get severity_config (lower ''error'') ''#808080'') ''CPU''
            ''load is high'')
       = Inr ()
   \<and> send_slack_alert example_outside example_notifier ''CPU'' ''load is high'' ''error''
       = Inr (True, [LogInfo ''slack'' ''CPU''])
   \<and> post_and_check example_outside (discord_webhook example_notifier)
         (DiscordPayload ''CPU'' ''load is high'' 0xFF0000)
       = Inl (PyError ''HTTPError'' ''bad status'')
   \<and> send_discord_alert example_outside example_notifier ''CPU'' ''load is high'' 0xFF0000
       = Inr (False, [LogError ''discord'' (str_exn (PyError ''HTTPError'' ''bad status''))])"
proof -
  have mail: "smtp_dialogue example_outside
       (SmtpMail (smtp_server example_notifier) (smtp_port example_notifier)
          (smtp_username example_notifier) (smtp_password example_notifier)
          (from_address example_notifier) [''ops@example.org''] ''CPU'' ''load is high'')
     = Inl (PyError ''SMTPAuthenticationError'' ''refused'')"
    by (simp add: example_outside_def)
  have slack: "post_and_check example_outside (slack_webhook example_notifier)
         (SlackPayload (dict_get severity_config (lower ''error'') ''#808080'') ''CPU''
            ''load is high'')
       = Inr ()"
    by (simp add: example_outside_def example_notifier_def post_and_check_def post_def
        raise_for_status_def bind_exn_def)
  have discord: "post_and_check example_outside (discord_webhook example_notifier)
         (DiscordPayload ''CPU'' ''load is high'' 0xFF0000)
       = Inl (PyError ''HTTPError'' ''bad status'')"
    by (simp add: example_outside_def example_notifier_def post_and_check_def post_def
        raise_for_status_def bind_exn_def)
  from send_methods_never_raise [where w = example_outside and self = example_notifier
      and subject = "''CPU''" and message = "''load is high''"
      and recipients = "[''ops@example.org'']" and title = "''CPU''"
      and severity = "''error''" and color = "0xFF0000"]
    mail slack discord
  show ?thesis
    by blast
qed

lemma send_email_alert_Inr:
  "\<exists>ok logged. send_email_alert w self subject message recipients = Inr (ok, logged)"
  by (auto simp: send_email_alert_result split: sum.splits)

lemma send_slack_alert_Inr:
  "\<exists>ok logged. send_slack_alert w self title message severity = Inr (ok, logged)"
  by (auto simp: send_slack_alert_result split: sum.splits)

lemma send_line_alert_Inr:
  "\<exists>ok logged. send_line_alert w self message = Inr (ok, logged)"
  by (auto simp: send_line_alert_result split: sum.splits)

lemma send_discord_alert_Inr:
  "\<exists>ok logged. send_discord_alert w self title message color = Inr (ok, logged)"
  by (auto simp: send_discord_alert_result split: sum.splits)

lemma store_result_Inr:
  "store_result channel (Inr (ok, logged)) acc
     = Inr ((fst acc)(channel \<mapsto> ok), snd acc @ logged)"
  by (simp add: store_result_def bind_exn_def)

lemma returned_Inr: "returned (Inr (ok, logged)) = Some ok"
  by (simp add: returned_def)

text \<open>
  C4. \<open>broadcast_alert\<close> returns a dictionary with one boolean per configured channel
  and no other key: \<open>email\<close> exactly when a non-empty recipient list was given, \<open>slack\<close>,
  \<open>line\<close> and \<open>discord\<close> exactly when the webhook or token is set to a non-empty
  string; each entry is the boolean that the channel's own send returned.
\<close>

theorem broadcast_alert_channels:
  "\<exists>results logged.
     broadcast_alert w self title message severity email_recipients = Inr (results, logged)
     \<and> dom results =
         {c. c = ''email'' \<and> (\<exists>r rs. email_recipients = Some (r # rs))
           \<or> c = ''slack'' \<and> truthy_str (slack_webhook self)
           \<or> c = ''line'' \<and> truthy_str (line_token self)
           \<or> c = ''discord'' \<and> truthy_str (discord_webhook self)}
     \<and> (\<forall>r rs. email_recipients = Some (r # rs) \<longrightarrow>
           results ''email'' = returned (send_email_alert w self title message (r # rs)))
     \<and> (truthy_str (slack_webhook self) \<longrightarrow>
           results ''slack'' = returned (send_slack_alert w self title message severity))
     \<and> (truthy_str (line_token self) \<longrightarrow>
           results ''line''
             = returned (send_line_alert w self (title @ [CHR 0x0A, CHR 0x0A] @ message)))
     \<and> (truthy_str (discord_webhook self) \<longrightarrow>
           results ''discord'' = returned (send_discord_alert w self title message 0xFF0000))"
proof -
  obtain ok_s lg_s where s: "send_slack_alert w self title message severity = Inr (ok_s, lg_s)"
    using send_slack_alert_Inr by blast
  obtain ok_l lg_l where l:
    "send_line_alert w self (title @ [CHR 0x0A, CHR 0x0A] @ message) = Inr (ok_l, lg_l)"
    using send_line_alert_Inr by blast
  obtain ok_d lg_d where d:
    "send_discord_alert w self title message 0xFF0000 = Inr (ok_d, lg_d)"
    using send_discord_alert_Inr by blast
  have l': "send_line_alert w self (title @ CHR 0x0A # CHR 0x0A # message) = Inr (ok_l, lg_l)"
    using l by simp
  note sends = s l' d store_result_Inr returned_Inr
  show ?thesis
  proof (cases "\<exists>r rs. email_recipients = Some (r # rs)")
    case True
    then obtain r rs where rs: "email_recipients = Some (r # rs)"
      by blast
    obtain ok_e lg_e where e:
      "send_email_alert w self title message (r # rs) = Inr (ok_e, lg_e)"
      using send_email_alert_Inr by blast
    show ?thesis
      by (auto simp: broadcast_alert_def bind_exn_def rs e sends)
  next
    case False
    then have "(case email_recipients of Some (r # rs) \<Rightarrow>
            store_result ''email'' (send_email_alert w self title message (r # rs))
              (Map.empty, [])
        | _ \<Rightarrow> Inr (Map.empty, [])) = Inr (Map.empty, [])"
      by (auto split: option.splits list.splits)
    with False show ?thesis
      by (auto simp: broadcast_alert_def bind_exn_def sends)
  qed
qed

lemma example_sends:
  "send_email_alert example_outside example_notifier ''CPU'' ''load is high'' [''ops@example.org'']
     = Inr (False, [LogError ''email'' ''refused''])"
  "send_slack_alert example_outside example_notifier ''CPU'' ''load is high'' ''error''
     = Inr (True, [LogInfo ''slack'' ''CPU''])"
  "send_discord_alert example_outside example_notifier ''CPU'' ''load is high'' 0xFF0000
     = Inr (False, [LogError ''discord'' ''bad status''])"
  by (simp_all add: send_email_alert_result send_slack_alert_result send_discord_alert_result
      example_outside_def example_notifier_def post_and_check_def post_def raise_for_status_def
      bind_exn_def)

theorem broadcast_alert_channels_witness:
  "truthy_str (slack_webhook example_notifier)
   \<and> \<not> truthy_str (line_token example_notifier)
   \<and> truthy_str (discord_webhook example_notifier)
   \<and> (\<exists>results logged.
        broadcast_alert example_outside example_notifier ''CPU'' ''load is high'' ''error''
            (Some [''ops@example.org''])
          = Inr (results, logged)
        \<and> dom results = {''email'', ''slack'', ''discord''}
        \<and> results ''email'' = Some False
        \<and> results ''slack'' = Some True
        \<and> results ''discord'' = Some False)"
proof -
  have cfg: "truthy_str (slack_webhook example_notifier)"
    "\<not> truthy_str (line_token example_notifier)"
    "truthy_str (discord_webhook example_notifier)"
    by (simp_all add: truthy_str_def example_notifier_def)
  from broadcast_alert_channels [of example_outside example_notifier "''CPU''"
      "''load is high''" "''error''" "Some [''ops@example.org'']"]
  obtain results logged where
    r: "broadcast_alert example_outside example_notifier ''CPU'' ''load is high'' ''error''
            (Some [''ops@example.org''])
          = Inr (results, logged)"
    and d: "dom results =
         {c. c = ''email'' \<and> (\<exists>r rs. Some [''ops@example.org''] = Some (r # rs))
           \<or> c = ''slack'' \<and> truthy_str (slack_webhook example_notifier)
           \<or> c = ''line'' \<and> truthy_str (line_token example_notifier)
           \<or> c = ''discord'' \<and> truthy_str (discord_webhook example_notifier)}"
    and e: "results ''email'' = returned (send_email_alert example_outside example_notifier
              ''CPU'' ''load is high'' [''ops@example.org''])"
    and s: "results ''slack'' = returned (send_slack_alert example_outside example_notifier
              ''CPU'' ''load is high'' ''error'')"
    and c: "results ''discord'' = returned (send_discord_alert example_outside example_notifier
              ''CPU'' ''load is high'' 0xFF0000)"
    using cfg by auto
  have "dom results = {''email'', ''slack'', ''discord''}"
    unfolding d using cfg by auto
  moreover have "results ''email'' = Some False" "results ''slack'' = Some True"
    "results ''discord'' = Some False"
    by (simp_all add: e s c example_sends returned_def)
  ultimately show ?thesis
    using cfg r by blast
qed

subsection \<open>Charges and refunds\<close>

lemma datetime_fromtimestamp_no_stripe:
  "datetime_fromtimestamp lib ts \<noteq> Inl (StripeError msg code)"
  by (simp add: datetime_fromtimestamp_def split: sum.splits prod.splits)

lemma process_payment_result:
  "process_payment sdk lib self amount token customer_email booking_ref =
     (case Charge_create sdk amount (currency self) token (description_prefix @ booking_ref)
             customer_email of
        Inr c \<Rightarrow>
          (case datetime_fromtimestamp lib (charge_created c) of
             Inr created \<Rightarrow>
               Inr [(''success'', PBool True),
                    (''transaction_id'', PStr (charge_id c)),
                    (''amount'', PInt (charge_amount c)),
                    (''receipt_url'', opt_str (charge_receipt_url c)),
                    (''status'', PStr (charge_status c)),
                    (''created'', created)]
           | Inl e \<Rightarrow> Inl e)
      | Inl (StripeError msg code) \<Rightarrow>
          Inr [(''success'', PBool False),
               (''error'', PStr msg),
               (''error_code'', opt_str code),
               (''booking_ref'', PStr booking_ref)]
      | Inl (PyError cls msg) \<Rightarrow> Inl (PyError cls msg))"
  using datetime_fromtimestamp_no_stripe [of lib]
  by (auto simp: process_payment_def try_except_StripeError_def bind_exn_def
      split: sum.splits exn.splits)

lemma process_refund_result:
  "process_refund sdk lib self transaction_id amount =
     (case Refund_create sdk transaction_id amount of
        Inr r \<Rightarrow>
          (case datetime_fromtimestamp lib (refund_created r) of
             Inr created \<Rightarrow>
               Inr [(''success'', PBool True),
                    (''refund_id'', PStr (refund_id r)),
                    (''amount'', PInt (refund_amount r)),
                    (''status'', PStr (refund_status r)),
                    (''created'', created)]
           | Inl e \<Rightarrow> Inl e)
      | Inl (StripeError msg code) \<Rightarrow>
          Inr [(''success'', PBool False),
               (''error'', PStr msg),
               (''error_code'', opt_str code),
               (''transaction_id'', PStr transaction_id)]
      | Inl (PyError cls msg) \<Rightarrow> Inl (PyError cls msg))"
  using datetime_fromtimestamp_no_stripe [of lib]
  by (auto simp: process_refund_def try_except_StripeError_def bind_exn_def
      split: sum.splits exn.splits)

lemma example_datetime_far_future:
  "datetime_fromtimestamp example_datetime (PInt 1000000000000000000)
     = Inl (PyError ''OSError'' ''Value too large for defined data type'')"
  by (simp add: datetime_fromtimestamp_def example_datetime_def)

text \<open>
  C6, as the claim states it, fails: the handler is not broad. When the SDK call raises
  an exception that is not a StripeError, here a TypeError, \<open>process_payment\<close> and
  \<open>process_refund\<close> return no error dictionary; the exception reaches the caller. So
  does the OSError that \<open>datetime.fromtimestamp\<close> raises inside the \<open>try\<close> when the call
  succeeded with a \<open>created\<close> of \<open>10 ^ 18\<close>.
\<close>

theorem process_payment_counterexample:
  "process_payment sdk_type_error example_datetime new_PaymentProcessor 5000 ''tok_visa''
       ''cat@example.org'' ''NK-1''
     = Inl (PyError ''TypeError'' ''unsupported parameter'')
   \<and> process_refund sdk_type_error example_datetime new_PaymentProcessor ''ch_1'' None
     = Inl (PyError ''TypeError'' ''unsupported parameter'')
   \<and> process_payment sdk_far_future example_datetime new_PaymentProcessor 5000 ''tok_visa''
       ''cat@example.org'' ''NK-1''
     = Inl (PyError ''OSError'' ''Value too large for defined data type'')
   \<and> process_refund sdk_far_future example_datetime new_PaymentProcessor ''ch_2'' None
     = Inl (PyError ''OSError'' ''Value too large for defined data type'')"
  by (simp add: process_payment_result process_refund_result sdk_type_error_def
      sdk_far_future_def example_datetime_far_future)

text \<open>
  C6, amended. \<open>process_payment\<close> and \<open>process_refund\<close> wrap their single SDK call, and
  the conversion of its \<open>created\<close> timestamp, in a handler for StripeError. When the call
  raises a StripeError they return an error dictionary with \<open>success\<close> False, the error
  message and the error code; when it succeeds and the timestamp converts they return a
  dictionary with \<open>success\<close> True and the transaction or refund id. An exception that is
  not a StripeError, raised by the call or by the conversion, propagates to the caller.
\<close>

theorem process_payment_refund_amended:
  "(\<forall>c t. Charge_create sdk amount (currency self) token (description_prefix @ booking_ref)
          customer_email = Inr c
          \<and> datetime_fromtimestamp lib (charge_created c) = Inr t
        \<longrightarrow> (\<exists>d. process_payment sdk lib self amount token customer_email booking_ref = Inr d
              \<and> map_of d ''success'' = Some (PBool True)
              \<and> map_of d ''transaction_id'' = Some (PStr (charge_id c))
              \<and> map_of d ''created'' = Some t))
   \<and> (\<forall>msg code. Charge_create sdk amount (currency self) token
          (description_prefix @ booking_ref) customer_email = Inl (StripeError msg code)
        \<longrightarrow> (\<exists>d. process_payment sdk lib self amount token customer_email booking_ref = Inr d
              \<and> map_of d ''success'' = Some (PBool False)
              \<and> map_of d ''error'' = Some (PStr msg)
              \<and> map_of d ''error_code'' = Some (opt_str code)))
   \<and> (\<forall>cls msg. Charge_create sdk amount (currency self) token
          (description_prefix @ booking_ref) customer_email = Inl (PyError cls msg)
        \<longrightarrow> process_payment sdk lib self amount token customer_email booking_ref
              = Inl (PyError cls msg))
   \<and> (\<forall>c e. Charge_create sdk amount (currency self) token (description_prefix @ booking_ref)
          customer_email = Inr c
          \<and> datetime_fromtimestamp lib (charge_created c) = Inl e
        \<longrightarrow> process_payment sdk lib self amount token customer_email booking_ref = Inl e)
   \<and> (\<forall>r t. Refund_create sdk transaction_id partial = Inr r
          \<and> datetime_fromtimestamp lib (refund_created r) = Inr t
        \<longrightarrow> (\<exists>d. process_refund sdk lib self transaction_id partial = Inr d
              \<and> map_of d ''success'' = Some (PBool True)
              \<and> map_of d ''refund_id'' = Some (PStr (refund_id r))
              \<and> map_of d ''created'' = Some t))
   \<and> (\<forall>msg code. Refund_create sdk transaction_id partial = Inl (StripeError msg code)
        \<longrightarrow> (\<exists>d. process_refund sdk lib self transaction_id partial = Inr d
              \<and> map_of d ''success'' = Some (PBool False)
              \<and> map_of d ''error'' = Some (PStr msg)
              \<and> map_of d ''error_code'' = Some (opt_str code)))
   \<and> (\<forall>cls msg. Refund_create sdk transaction_id partial = Inl (PyError cls msg)
        \<longrightarrow> process_refund sdk lib self transaction_id partial = Inl (PyError cls msg))
   \<and> (\<forall>r e. Refund_create sdk transaction_id partial = Inr r
          \<and> datetime_fromtimestamp lib (refund_created r) = Inl e
        \<longrightarrow> process_refund sdk lib self transaction_id partial = Inl e)"
  by (simp add: process_payment_result process_refund_result)

theorem process_payment_refund_amended_witness:
  "Charge_create sdk_card_error 5000 (currency new_PaymentProcessor) ''tok_visa''
       (description_prefix @ ''NK-1'') ''cat@example.org''
     = Inl (StripeError ''Your card was declined.'' (Some ''card_declined''))
   \<and> (\<exists>d. process_payment sdk_card_error example_datetime new_PaymentProcessor 5000
             ''tok_visa'' ''cat@example.org'' ''NK-1'' = Inr d
          \<and> map_of d ''success'' = Some (PBool False)
          \<and> map_of d ''error'' = Some (PStr ''Your card was declined.'')
          \<and> map_of d ''error_code'' = Some (PStr ''card_declined''))
   \<and> Refund_create sdk_accepts ''ch_1'' None
     = Inr \<lparr>refund_id = ''re_1'', refund_amount = 5000, refund_status = ''succeeded'',
            refund_created = PInt 1700000100\<rparr>
   \<and> datetime_fromtimestamp example_datetime (PInt 1700000100) = Inr (PDatetime 1700000100)
   \<and> (\<exists>d. process_refund sdk_accepts example_datetime new_PaymentProcessor ''ch_1'' None
             = Inr d
          \<and> map_of d ''success'' = Some (PBool True)
          \<and> map_of d ''refund_id'' = Some (PStr ''re_1'')
          \<and> map_of d ''created'' = Some (PDatetime 1700000100))"
proof -
  have declined: "Charge_create sdk_card_error 5000 (currency new_PaymentProcessor) ''tok_visa''
       (description_prefix @ ''NK-1'') ''cat@example.org''
     = Inl (StripeError ''Your card was declined.'' (Some ''card_declined''))"
    by (simp add: sdk_card_error_def)
  have refunded: "Refund_create sdk_accepts ''ch_1'' None
     = Inr \<lparr>refund_id = ''re_1'', refund_amount = 5000, refund_status = ''succeeded'',
            refund_created = PInt 1700000100\<rparr>"
    by (simp add: sdk_accepts_def)
  have converted: "datetime_fromtimestamp example_datetime (PInt 1700000100)
                     = Inr (PDatetime 1700000100)"
    by (simp add: datetime_fromtimestamp_def example_datetime_def)
  have code: "opt_str (Some ''card_declined'') = PStr ''card_declined''"
    by (simp add: opt_str_def)
  from process_payment_refund_amended [where sdk = sdk_card_error and lib = example_datetime
      and self = new_PaymentProcessor and amount = 5000 and token = "''tok_visa''"
      and customer_email = "''cat@example.org''" and booking_ref = "''NK-1''"] declined
  have a: "\<exists>d. process_payment sdk_card_error example_datetime new_PaymentProcessor 5000
             ''tok_visa'' ''cat@example.org'' ''NK-1'' = Inr d
          \<and> map_of d ''success'' = Some (PBool False)
          \<and> map_of d ''error'' = Some (PStr ''Your card was declined.'')
          \<and> map_of d ''error_code'' = Some (PStr ''card_declined'')"
    unfolding code [symmetric] by blast
  from process_payment_refund_amended [where sdk = sdk_accepts and lib = example_datetime
      and self = new_PaymentProcessor and transaction_id = "''ch_1''"
      and partial = None] refunded converted
  have b: "\<exists>d. process_refund sdk_accepts example_datetime new_PaymentProcessor ''ch_1'' None
             = Inr d
          \<and> map_of d ''success'' = Some (PBool True)
          \<and> map_of d ''refund_id'' = Some (PStr ''re_1'')
          \<and> map_of d ''created'' = Some (PDatetime 1700000100)"
    by fastforce
  from declined a refunded converted b show ?thesis
    by blast
qed

subsection \<open>The polling loop\<close>

text \<open>
  The scan itself compares as intended (\<open>scan_resources_alerts\<close>): given the measured
  values it alerts exactly for the keys whose value exceeds the threshold. It never gets
  them: no iteration of the loop raises a resource alert
  (\<open>monitoring_loop_no_resource_alert\<close>).
\<close>

lemma record_metric_raises:
  "record_metric name v
     = Inl (PyError ''AttributeError'' ''MetricsManager object has no attribute record_metric'')"
  by (simp add: record_metric_def metrics_manager_getattr_def MetricsManager_methods_def
      bind_exn_def)

lemma check_system_resources_empty:
  "\<exists>events. check_system_resources w = (Inr [], events)
     \<and> (\<forall>ev \<in> set events. \<forall>t d. ev \<noteq> Alert t d)"
  by (cases "psutil_resources w")
    (auto simp: check_system_resources_def try_except_io_def quiet_def bind_exn_def
      record_metric_raises Let_def split: prod.splits)

lemma check_network_health_empty:
  "\<exists>events. check_network_health w = (Inr [], events)
     \<and> (\<forall>ev \<in> set events. \<forall>t d. ev \<noteq> Alert t d)"
  by (cases "psutil_net_io_counters w")
    (auto simp: check_network_health_def try_except_io_def quiet_def bind_exn_def
      record_metric_raises Let_def)

lemma check_application_health_raises:
  "check_application_health
     = (Inl (PyError ''AttributeError'' ''MetricsManager object has no attribute record_metric''),
        [])"
  by (simp add: check_application_health_def quiet_def bind_exn_def record_metric_raises)

lemma scan_network_events:
  "\<forall>ev \<in> set (snd (scan_network thresholds network)).
     \<forall>d. ev \<noteq> Alert ''resource_threshold_exceeded'' d"
  by (auto simp: scan_network_def split: option.splits sum.splits)

lemma monitoring_iteration_no_resource_alert:
  "Alert ''resource_threshold_exceeded'' details \<notin> set (monitoring_iteration self w)"
proof -
  obtain ev1 where r: "check_system_resources w = (Inr [], ev1)"
    and n1: "\<forall>ev \<in> set ev1. \<forall>t d. ev \<noteq> Alert t d"
    using check_system_resources_empty by blast
  obtain ev2 where h: "check_network_health w = (Inr [], ev2)"
    and n2: "\<forall>ev \<in> set ev2. \<forall>t d. ev \<noteq> Alert t d"
    using check_network_health_empty by blast
  obtain res ev3 where s: "scan_network (alert_threshold self) [] = (res, ev3)"
    by (cases "scan_network (alert_threshold self) []") auto
  have n3: "\<forall>ev \<in> set ev3. \<forall>d. ev \<noteq> Alert ''resource_threshold_exceeded'' d"
    using scan_network_events [of "alert_threshold self" "[]"] s by simp
  show ?thesis
    using n1 n2 n3
    by (cases res)
      (auto simp: monitoring_iteration_def try_except_io_def bind_io_def r h s
        check_application_health_raises)
qed

lemma monitoring_loop_no_resource_alert:
  "events \<in> set (monitoring_loop self trace) \<Longrightarrow>
     Alert ''resource_threshold_exceeded'' details \<notin> set events"
  by (induction self trace rule: monitoring_loop.induct)
    (auto simp: monitoring_iteration_no_resource_alert split: if_splits)

lemma scan_resources_alerts:
  assumes "\<forall>(k, v) \<in> set items. map_of thresholds k \<noteq> None \<longrightarrow> numeric v \<noteq> None"
  shows "fst (scan_resources thresholds items) = Inr ()
     \<and> (Alert ''resource_threshold_exceeded''
          [(''metric'', PStr key), (''value'', v), (''threshold'', PFloat t)]
          \<in> set (snd (scan_resources thresholds items))
        \<longleftrightarrow> (key, v) \<in> set items \<and> map_of thresholds key = Some t
            \<and> (\<exists>x. numeric v = Some x \<and> t < x))"
  using assms
proof (induction items)
  case Nil
  then show ?case by simp
next
  case (Cons item items)
  obtain k u where item: "item = (k, u)" by (cases item)
  from Cons.prems have rest:
    "\<forall>(k, v) \<in> set items. map_of thresholds k \<noteq> None \<longrightarrow> numeric v \<noteq> None"
    by simp
  note IH = Cons.IH [OF rest]
  show ?case
  proof (cases "map_of thresholds k")
    case None
    then show ?thesis using IH item by auto
  next
    case (Some th)
    with Cons.prems item obtain x where x: "numeric u = Some x" by auto
    have g: "greater_than u th = Inr (th < x)"
      using greater_than_numeric [OF x] .
    show ?thesis
      using IH item Some x g by (auto simp: after_def)
  qed
qed

lemma scan_resources_busy:
  "snd (scan_resources default_alert_threshold
          [(''cpu_percent'', PFloat 95), (''memory_percent'', PFloat 50),
           (''disk_percent'', PFloat 50), (''timestamp'', PStr ''2024-01-01T00:00:00'')])
     = [Alert ''resource_threshold_exceeded''
          [(''metric'', PStr ''cpu_percent''), (''value'', PFloat 95),
           (''threshold'', PFloat 80)]]"
  by (simp add: default_alert_threshold_def after_def)

text \<open>
  C8 at a busy machine. With the default thresholds and a CPU reading of 95 percent,
  above its threshold of 80, an iteration of the loop raises no alert:
  \<open>check_system_resources\<close> fails on the missing \<open>record_metric\<close>, its handler returns the
  empty dictionary, and the scan has nothing to compare. The two other checks fail on
  the same lookup.
\<close>

theorem monitoring_iteration_busy:
  "psutil_resources busy_os = Inr (95, 50, 50)
   \<and> map_of (alert_threshold (new_SystemMonitor 60 None)) ''cpu_percent'' = Some 80
   \<and> fst (check_system_resources busy_os) = Inr []
   \<and> monitoring_iteration (new_SystemMonitor 60 None) busy_os
     = [Logged (LogError ''check_system_resources''
                  ''MetricsManager object has no attribute record_metric''),
        ErrorCounted ''system_check_failed'',
        Logged (LogError ''check_network_health''
                  ''MetricsManager object has no attribute record_metric''),
        ErrorCounted ''network_check_failed'',
        Logged (LogError ''_monitoring_loop''
                  ''MetricsManager object has no attribute record_metric''),
        ErrorCounted ''monitoring_loop_error'']"
  by (simp add: monitoring_iteration_def try_except_io_def bind_io_def
      check_system_resources_def check_network_health_def check_application_health_raises
      quiet_def bind_exn_def record_metric_raises Let_def busy_os_def new_SystemMonitor_def
      default_alert_threshold_def scan_network_def dict_get_def)

end
